theory Spec2Isabelle
  imports Main
begin

section \<open>Kanbex: the data model\<close>

text \<open>
  Modelled from the spec: the schema of the four tables, which is not among the sources.
  The rows have the fields of the spec's data model, which are the columns the routers
  read or write; \<open>externalID\<close> is unique in its table and given by the database,
  \<open>username\<close> is unique, and a new row is not deleted.
  A relation (\<open>createdBy\<close>, \<open>board\<close>, \<open>stage\<close>) is stored as the \<open>externalID\<close> of the row
  it points to; the routers address related rows by that identifier only
  (\<open>connect: { externalID: ... }\<close>, \<open>createdBy: { externalID: ... }\<close>).
  Dates are milliseconds since the epoch, JavaScript numbers are integers.
  The timestamps \<open>createdAt\<close> and \<open>updatedAt\<close> are kept by the database and no resolver
  reads or writes them; they are left out.
\<close>

record User =
  u_externalID :: string
  u_username :: string
  u_name :: string
  u_email :: string
  u_password :: string
  u_deleted :: bool

record Board =
  b_externalID :: string
  b_title :: string
  b_description :: string
  b_createdBy :: string
  b_deleted :: bool

record Stage =
  s_externalID :: string
  s_title :: string
  s_description :: string
  s_createdBy :: string
  s_board :: string
  s_deleted :: bool

record Task =
  t_externalID :: string
  t_title :: string
  t_description :: "string option"
  t_dueDate :: int
  t_priority :: int
  t_createdBy :: string
  t_stage :: string
  t_deleted :: bool

text \<open>\<open>ctx.prisma\<close>: the tables, each in the order the database returns its rows.\<close>

record store =
  users :: "User list"
  boards :: "Board list"
  stages :: "Stage list"
  tasks :: "Task list"

text \<open>The request context built by \<open>createContext\<close>: \<open>ctx.user\<close> is a row or \<open>null\<close>.\<close>

record Context =
  user :: "User option"

subsection \<open>Errors\<close>

datatype trpc_code = BAD_REQUEST | UNAUTHORIZED | NOT_FOUND | INTERNAL_SERVER_ERROR

datatype error =
    TRPCError trpc_code
  | TypeError
  | JsonWebTokenError
  | TokenExpiredError
  | PrismaClientError

definition and_then :: "error + 'a \<Rightarrow> ('a \<Rightarrow> error + 'b) \<Rightarrow> error + 'b" where
  "and_then r f = (case r of Inl e \<Rightarrow> Inl e | Inr x \<Rightarrow> f x)"

text \<open>
  \<open>try { ... } catch (error) { throw new TRPCError({ code: "INTERNAL_SERVER_ERROR" }) }\<close>:
  whatever the body throws, the caller sees \<open>INTERNAL_SERVER_ERROR\<close>.
\<close>

definition try_catch :: "error + 'a \<Rightarrow> error + 'a" where
  "try_catch r = (case r of Inl e \<Rightarrow> Inl (TRPCError INTERNAL_SERVER_ERROR) | Inr x \<Rightarrow> Inr x)"

text \<open>
  A query leaves the store as it is. A mutation makes one write, as the last step that
  can throw, and the write either throws and changes nothing or succeeds: its body
  returns the output together with the new store, and an error leaves the old one.
\<close>

definition query :: "error + 'a \<Rightarrow> store \<Rightarrow> (error + 'a) \<times> store" where
  "query r st = (try_catch r, st)"

definition mutation :: "error + ('a \<times> store) \<Rightarrow> store \<Rightarrow> (error + 'a) \<times> store" where
  "mutation r st =
     (case r of
        Inl e \<Rightarrow> (Inl (TRPCError INTERNAL_SERVER_ERROR), st)
      | Inr (out, st') \<Rightarrow> (Inr out, st'))"

subsection \<open>JavaScript values\<close>

text \<open>\<open>a || b\<close> on a nullable string, number or date: \<open>null\<close>, \<open>""\<close> and \<open>0\<close> are falsy, a
  \<open>Date\<close> object never is.\<close>

definition or_string :: "string option \<Rightarrow> string \<Rightarrow> string" where
  "or_string a b = (case a of None \<Rightarrow> b | Some s \<Rightarrow> if s = [] then b else s)"

definition or_nullable :: "string option \<Rightarrow> string option \<Rightarrow> string option" where
  "or_nullable a b = (case a of None \<Rightarrow> b | Some s \<Rightarrow> if s = [] then b else Some s)"

definition or_number :: "int option \<Rightarrow> int \<Rightarrow> int" where
  "or_number a b = (case a of None \<Rightarrow> b | Some n \<Rightarrow> if n = 0 then b else n)"

definition or_date :: "int option \<Rightarrow> int \<Rightarrow> int" where
  "or_date a b = (case a of None \<Rightarrow> b | Some d \<Rightarrow> d)"

text \<open>\<open>ctx.user.externalID\<close>: reading a property of \<open>null\<close> throws a \<open>TypeError\<close>.\<close>

definition ctx_user_externalID :: "Context \<Rightarrow> error + string" where
  "ctx_user_externalID ctx =
     (case user ctx of None \<Rightarrow> Inl TypeError | Some u \<Rightarrow> Inr (u_externalID u))"

subsection \<open>The persistence client\<close>

text \<open>
  The calls of the Prisma client that the routers make, on a table as a list of rows.
  \<open>findFirst\<close> and \<open>findUnique\<close> return the first row that matches or \<open>null\<close>;
  \<open>findFirstOrThrow\<close> throws instead of returning \<open>null\<close>.
\<close>

definition findFirst :: "('a \<Rightarrow> bool) \<Rightarrow> 'a list \<Rightarrow> 'a option" where
  "findFirst P xs = find P xs"

definition findFirstOrThrow :: "('a \<Rightarrow> bool) \<Rightarrow> 'a list \<Rightarrow> error + 'a" where
  "findFirstOrThrow P xs =
     (case find P xs of None \<Rightarrow> Inl PrismaClientError | Some x \<Rightarrow> Inr x)"

text \<open>
  \<open>findMany({ where, take, skip })\<close>: a negative \<open>skip\<close> is refused, a negative \<open>take\<close>
  counts from the end of the matching rows.
\<close>

definition findMany :: "('a \<Rightarrow> bool) \<Rightarrow> int \<Rightarrow> int \<Rightarrow> 'a list \<Rightarrow> error + 'a list" where
  "findMany P tk sk xs =
     (if sk < 0 then Inl PrismaClientError
      else if 0 \<le> tk then Inr (take (nat tk) (drop (nat sk) (filter P xs)))
      else Inr (rev (take (nat (- tk)) (drop (nat sk) (rev (filter P xs))))))"

text \<open>
  \<open>update({ where: { externalID }, data })\<close>: the row with the unique key is replaced by
  the patched row; without such a row the call throws.
\<close>

fun update_row :: "('a \<Rightarrow> bool) \<Rightarrow> ('a \<Rightarrow> 'a) \<Rightarrow> 'a list \<Rightarrow> ('a \<times> 'a list) option" where
  "update_row P f [] = None"
| "update_row P f (x # xs) =
     (if P x then Some (f x, f x # xs)
      else (case update_row P f xs of
              None \<Rightarrow> None
            | Some (y, ys) \<Rightarrow> Some (y, x # ys)))"

definition update :: "('a \<Rightarrow> bool) \<Rightarrow> ('a \<Rightarrow> 'a) \<Rightarrow> 'a list \<Rightarrow> error + ('a \<times> 'a list)" where
  "update P f xs =
     (case update_row P f xs of None \<Rightarrow> Inl PrismaClientError | Some r \<Rightarrow> Inr r)"

text \<open>\<open>include: { createdBy: true }\<close> and the other joins on a relation.\<close>

definition the_user :: "store \<Rightarrow> string \<Rightarrow> error + User" where
  "the_user st uid = findFirstOrThrow (\<lambda>u. u_externalID u = uid) (users st)"

definition the_board :: "store \<Rightarrow> string \<Rightarrow> error + Board" where
  "the_board st bid = findFirstOrThrow (\<lambda>b. b_externalID b = bid) (boards st)"

definition the_stage :: "store \<Rightarrow> string \<Rightarrow> error + Stage" where
  "the_stage st sid = findFirstOrThrow (\<lambda>s. s_externalID s = sid) (stages st)"


section \<open>Procedures\<close>

text \<open>
  Modelled from the spec: \<open>protectedProcedure\<close>, which every router below imports from
  \<open>../trpc\<close>. That module holds it only as a commented-out draft
  (\<open>isAuthorized\<close>: \<open>if (!ctx.user) throw new TRPCError({ code: "UNAUTHORIZED" })\<close>, else
  \<open>next({ ctx })\<close>); the spec asks the same: a procedure other than register and login
  needs a non-null authenticated context and fails with \<open>Unauthorized\<close> without one.
  The middleware runs before the resolver and touches nothing.
\<close>

definition protectedProcedure ::
  "(Context \<Rightarrow> 'i \<Rightarrow> store \<Rightarrow> (error + 'o) \<times> store) \<Rightarrow>
   Context \<Rightarrow> 'i \<Rightarrow> store \<Rightarrow> (error + 'o) \<times> store" where
  "protectedProcedure resolver ctx inp st =
     (if user ctx = None then (Inl (TRPCError UNAUTHORIZED), st)
      else resolver ctx inp st)"

text \<open>\<open>publicProcedure\<close> is \<open>t.procedure\<close>: the resolver alone.\<close>

definition publicProcedure ::
  "(Context \<Rightarrow> 'i \<Rightarrow> store \<Rightarrow> (error + 'o) \<times> store) \<Rightarrow>
   Context \<Rightarrow> 'i \<Rightarrow> store \<Rightarrow> (error + 'o) \<times> store" where
  "publicProcedure resolver ctx inp st = resolver ctx inp st"

text \<open>
  The input of a resolver is the value the declared shape has parsed: an optional or
  nullable field is an \<open>option\<close>. The shapes \<open>{ limit, offset }\<close> and \<open>{ externalID }\<close>
  are shared by the list, get and delete procedures of every router.
  The parser itself is the validation library's: a request whose input does not parse is
  answered with \<open>BAD_REQUEST\<close> before the resolver runs and without a call to the store,
  and its format checks (uuid, email, lengths, ranges) are not part of the model. The
  output shape only drops fields from what the resolver returns; the results below are
  the resolvers' own return values.
\<close>

record list_input =
  limit :: int
  offset :: int

record id_input =
  externalID :: string

section \<open>The board router\<close>

record board_create_input =
  bc_title :: string
  bc_description :: "string option"

record board_update_input =
  bu_externalID :: string
  bu_title :: "string option"
  bu_description :: "string option"

text \<open>A board row with \<open>include: { createdBy: true }\<close>, and with \<open>Stage: true\<close> as well.\<close>

type_synonym board_incl = "Board \<times> User"
type_synonym board_full = "Board \<times> User \<times> Stage list"

definition board_createdBy :: "store \<Rightarrow> Board \<Rightarrow> error + board_incl" where
  "board_createdBy st b = and_then (the_user st (b_createdBy b)) (\<lambda>u. Inr (b, u))"

fun include_all :: "('a \<Rightarrow> error + 'b) \<Rightarrow> 'a list \<Rightarrow> error + 'b list" where
  "include_all f [] = Inr []"
| "include_all f (x # xs) =
     and_then (f x) (\<lambda>y. and_then (include_all f xs) (\<lambda>ys. Inr (y # ys)))"

definition board_list :: "Context \<Rightarrow> list_input \<Rightarrow> store \<Rightarrow> (error + board_incl list) \<times> store" where
  "board_list ctx inp st =
     query
       (and_then (ctx_user_externalID ctx) (\<lambda>uid.
        and_then (findMany (\<lambda>b. \<not> b_deleted b \<and> b_createdBy b = uid)
                    (limit inp) (offset inp) (boards st)) (\<lambda>bs.
        include_all (board_createdBy st) bs))) st"

definition board_get :: "Context \<Rightarrow> id_input \<Rightarrow> store \<Rightarrow> (error + board_full) \<times> store" where
  "board_get ctx inp st =
     query
       (and_then (ctx_user_externalID ctx) (\<lambda>uid.
        case findFirst (\<lambda>b. b_externalID b = externalID inp \<and> \<not> b_deleted b
                             \<and> b_createdBy b = uid) (boards st) of
          None \<Rightarrow> Inl (TRPCError NOT_FOUND)
        | Some b \<Rightarrow>
            and_then (the_user st (b_createdBy b)) (\<lambda>u.
            Inr (b, u, filter (\<lambda>s. s_board s = b_externalID b) (stages st))))) st"

text \<open>
  \<open>board.create\<close>. The identifier of the new row is the database's (\<open>uuid\<close>, an argument
  here); the column is unique, so a value already in the table is refused.
\<close>

definition create_board :: "store \<Rightarrow> string \<Rightarrow> string \<Rightarrow> string \<Rightarrow> string \<Rightarrow> error + (board_incl \<times> store)" where
  "create_board st uuid title description uid =
     (if uuid \<in> set (map b_externalID (boards st)) then Inl PrismaClientError
      else and_then (the_user st uid) (\<lambda>u.
        let b = \<lparr>b_externalID = uuid, b_title = title, b_description = description,
                 b_createdBy = uid, b_deleted = False\<rparr>
        in Inr ((b, u), st\<lparr>boards := boards st @ [b]\<rparr>)))"

definition board_create ::
  "string \<Rightarrow> Context \<Rightarrow> board_create_input \<Rightarrow> store \<Rightarrow> (error + board_incl) \<times> store" where
  "board_create uuid ctx inp st =
     mutation
       (and_then (ctx_user_externalID ctx) (\<lambda>uid.
        and_then (findFirstOrThrow (\<lambda>b. b_title b = bc_title inp \<and> \<not> b_deleted b
                                        \<and> b_createdBy b = uid) (boards st)) (\<lambda>_.
        create_board st uuid (bc_title inp) (or_string (bc_description inp) []) uid))) st"

definition board_update ::
  "Context \<Rightarrow> board_update_input \<Rightarrow> store \<Rightarrow> (error + board_incl) \<times> store" where
  "board_update ctx inp st =
     mutation
       (and_then (ctx_user_externalID ctx) (\<lambda>uid.
        and_then (findFirstOrThrow (\<lambda>b. b_externalID b = bu_externalID inp \<and> \<not> b_deleted b
                                        \<and> b_createdBy b = uid) (boards st)) (\<lambda>_.
        and_then (update (\<lambda>b. b_externalID b = bu_externalID inp)
                    (\<lambda>b. b\<lparr>b_title := (case bu_title inp of None \<Rightarrow> b_title b | Some t \<Rightarrow> t),
                           b_description := (case bu_description inp of
                                               None \<Rightarrow> b_description b | Some d \<Rightarrow> d)\<rparr>)
                    (boards st)) (\<lambda>(b, bs).
        and_then (the_user st (b_createdBy b)) (\<lambda>u.
        Inr ((b, u), st\<lparr>boards := bs\<rparr>)))))) st"

definition board_delete :: "Context \<Rightarrow> id_input \<Rightarrow> store \<Rightarrow> (error + unit) \<times> store" where
  "board_delete ctx inp st =
     mutation
       (and_then (ctx_user_externalID ctx) (\<lambda>uid.
        and_then (findFirstOrThrow (\<lambda>b. b_externalID b = externalID inp \<and> \<not> b_deleted b
                                        \<and> b_createdBy b = uid) (boards st)) (\<lambda>_.
        and_then (update (\<lambda>b. b_externalID b = externalID inp) (\<lambda>b. b\<lparr>b_deleted := True\<rparr>)
                    (boards st)) (\<lambda>(b, bs).
        Inr ((), st\<lparr>boards := bs\<rparr>))))) st"


section \<open>The stage router\<close>

record stage_create_input =
  sc_title :: string
  sc_description :: string
  sc_boardExternalID :: string

record stage_update_input =
  su_externalID :: string
  su_title :: string
  su_description :: string

text \<open>A stage row with \<open>include: { createdBy: true, board: true }\<close>, and with
  \<open>Task: true\<close> as well.\<close>

type_synonym stage_incl = "Stage \<times> User \<times> Board"
type_synonym stage_full = "Stage \<times> User \<times> Board \<times> Task list"

definition stage_createdBy_board :: "store \<Rightarrow> Stage \<Rightarrow> error + stage_incl" where
  "stage_createdBy_board st s =
     and_then (the_user st (s_createdBy s)) (\<lambda>u.
     and_then (the_board st (s_board s)) (\<lambda>b. Inr (s, u, b)))"

definition stage_list :: "Context \<Rightarrow> list_input \<Rightarrow> store \<Rightarrow> (error + stage_incl list) \<times> store" where
  "stage_list ctx inp st =
     query
       (and_then (ctx_user_externalID ctx) (\<lambda>uid.
        and_then (findMany (\<lambda>s. \<not> s_deleted s \<and> s_createdBy s = uid)
                    (limit inp) (offset inp) (stages st)) (\<lambda>ss.
        include_all (stage_createdBy_board st) ss))) st"

definition stage_get :: "Context \<Rightarrow> id_input \<Rightarrow> store \<Rightarrow> (error + stage_full) \<times> store" where
  "stage_get ctx inp st =
     query
       (and_then (ctx_user_externalID ctx) (\<lambda>uid.
        and_then (findFirstOrThrow (\<lambda>s. s_externalID s = externalID inp \<and> \<not> s_deleted s
                                        \<and> s_createdBy s = uid) (stages st)) (\<lambda>s.
        and_then (stage_createdBy_board st s) (\<lambda>(s, u, b).
        Inr (s, u, b, filter (\<lambda>t. t_stage t = s_externalID s) (tasks st)))))) st"

text \<open>
  \<open>stage.create\<close>: the row looked up first is a board of the caller whose title is the
  new stage's title; the parent is connected by \<open>input.boardExternalID\<close>.
\<close>

definition create_stage ::
  "store \<Rightarrow> string \<Rightarrow> string \<Rightarrow> string \<Rightarrow> string \<Rightarrow> string \<Rightarrow> error + (stage_incl \<times> store)" where
  "create_stage st uuid title description uid bid =
     (if uuid \<in> set (map s_externalID (stages st)) then Inl PrismaClientError
      else and_then (the_user st uid) (\<lambda>u.
           and_then (the_board st bid) (\<lambda>b.
        let s = \<lparr>s_externalID = uuid, s_title = title, s_description = description,
                 s_createdBy = uid, s_board = bid, s_deleted = False\<rparr>
        in Inr ((s, u, b), st\<lparr>stages := stages st @ [s]\<rparr>))))"

definition stage_create ::
  "string \<Rightarrow> Context \<Rightarrow> stage_create_input \<Rightarrow> store \<Rightarrow> (error + stage_incl) \<times> store" where
  "stage_create uuid ctx inp st =
     mutation
       (and_then (ctx_user_externalID ctx) (\<lambda>uid.
        and_then (findFirstOrThrow (\<lambda>b. b_title b = sc_title inp \<and> \<not> b_deleted b
                                        \<and> b_createdBy b = uid) (boards st)) (\<lambda>_.
        create_stage st uuid (sc_title inp) (sc_description inp) uid (sc_boardExternalID inp)))) st"

definition stage_update ::
  "Context \<Rightarrow> stage_update_input \<Rightarrow> store \<Rightarrow> (error + stage_incl) \<times> store" where
  "stage_update ctx inp st =
     mutation
       (and_then (ctx_user_externalID ctx) (\<lambda>uid.
        and_then (findFirstOrThrow (\<lambda>s. s_externalID s = su_externalID inp \<and> \<not> s_deleted s
                                        \<and> s_createdBy s = uid) (stages st)) (\<lambda>_.
        and_then (update (\<lambda>s. s_externalID s = su_externalID inp)
                    (\<lambda>s. s\<lparr>s_title := su_title inp, s_description := su_description inp\<rparr>)
                    (stages st)) (\<lambda>(s, ss).
        and_then (stage_createdBy_board st s) (\<lambda>r.
        Inr (r, st\<lparr>stages := ss\<rparr>)))))) st"

definition stage_delete :: "Context \<Rightarrow> id_input \<Rightarrow> store \<Rightarrow> (error + unit) \<times> store" where
  "stage_delete ctx inp st =
     mutation
       (and_then (ctx_user_externalID ctx) (\<lambda>uid.
        and_then (findFirstOrThrow (\<lambda>s. s_externalID s = externalID inp \<and> \<not> s_deleted s
                                        \<and> s_createdBy s = uid) (stages st)) (\<lambda>_.
        and_then (update (\<lambda>s. s_externalID s = externalID inp) (\<lambda>s. s\<lparr>s_deleted := True\<rparr>)
                    (stages st)) (\<lambda>(s, ss).
        Inr ((), st\<lparr>stages := ss\<rparr>))))) st"

section \<open>The task router\<close>

record task_create_input =
  tc_title :: string
  tc_description :: "string option"
  tc_dueDate :: "int option"
  tc_priority :: int
  tc_stageExternalID :: string

record task_update_input =
  tu_externalID :: string
  tu_title :: "string option"
  tu_description :: "string option"
  tu_dueDate :: "int option"
  tu_priority :: "int option"
  tu_stageExternalID :: "string option"

text \<open>A task row with \<open>include: { createdBy: true, stage: true }\<close>, and with
  \<open>stage: { include: { board: true } }\<close>.\<close>

type_synonym task_incl = "Task \<times> User \<times> Stage"
type_synonym task_full = "Task \<times> User \<times> Stage \<times> Board"

definition task_createdBy_stage :: "store \<Rightarrow> Task \<Rightarrow> error + task_incl" where
  "task_createdBy_stage st t =
     and_then (the_user st (t_createdBy t)) (\<lambda>u.
     and_then (the_stage st (t_stage t)) (\<lambda>s. Inr (t, u, s)))"

definition task_createdBy_stage_board :: "store \<Rightarrow> Task \<Rightarrow> error + task_full" where
  "task_createdBy_stage_board st t =
     and_then (the_user st (t_createdBy t)) (\<lambda>u.
     and_then (the_stage st (t_stage t)) (\<lambda>s.
     and_then (the_board st (s_board s)) (\<lambda>b. Inr (t, u, s, b))))"

definition task_list :: "Context \<Rightarrow> list_input \<Rightarrow> store \<Rightarrow> (error + task_incl list) \<times> store" where
  "task_list ctx inp st =
     query
       (and_then (ctx_user_externalID ctx) (\<lambda>uid.
        and_then (findMany (\<lambda>t. \<not> t_deleted t \<and> t_createdBy t = uid)
                    (limit inp) (offset inp) (tasks st)) (\<lambda>ts.
        include_all (task_createdBy_stage st) ts))) st"

text \<open>The lookup that \<open>task.get\<close> and \<open>task.update\<close> start with.\<close>

definition task_find :: "store \<Rightarrow> string \<Rightarrow> string \<Rightarrow> error + task_full" where
  "task_find st eid uid =
     and_then (findFirstOrThrow (\<lambda>t. t_externalID t = eid \<and> \<not> t_deleted t
                                     \<and> t_createdBy t = uid) (tasks st))
       (task_createdBy_stage_board st)"

definition task_get :: "Context \<Rightarrow> id_input \<Rightarrow> store \<Rightarrow> (error + task_full) \<times> store" where
  "task_get ctx inp st =
     query
       (and_then (ctx_user_externalID ctx) (\<lambda>uid. task_find st (externalID inp) uid)) st"

text \<open>
  \<open>task.create\<close>: the row looked up first is a stage of the caller whose title is the
  new task's title; the parent is connected by \<open>input.stageExternalID\<close>. \<open>now\<close> is
  \<open>new Date()\<close>.
\<close>

definition create_task ::
  "store \<Rightarrow> string \<Rightarrow> string \<Rightarrow> string option \<Rightarrow> int \<Rightarrow> int \<Rightarrow> string \<Rightarrow> string \<Rightarrow>
   error + (task_full \<times> store)" where
  "create_task st uuid title description dueDate priority uid sid =
     (if uuid \<in> set (map t_externalID (tasks st)) then Inl PrismaClientError
      else
        let t = \<lparr>t_externalID = uuid, t_title = title, t_description = description,
                 t_dueDate = dueDate, t_priority = priority, t_createdBy = uid,
                 t_stage = sid, t_deleted = False\<rparr>
        in and_then (task_createdBy_stage_board st t) (\<lambda>r.
           Inr (r, st\<lparr>tasks := tasks st @ [t]\<rparr>)))"

definition task_create ::
  "string \<Rightarrow> int \<Rightarrow> Context \<Rightarrow> task_create_input \<Rightarrow> store \<Rightarrow> (error + task_full) \<times> store" where
  "task_create uuid now ctx inp st =
     mutation
       (and_then (ctx_user_externalID ctx) (\<lambda>uid.
        and_then (findFirstOrThrow (\<lambda>s. s_title s = tc_title inp \<and> \<not> s_deleted s
                                        \<and> s_createdBy s = uid) (stages st)) (\<lambda>_.
        create_task st uuid (tc_title inp) (tc_description inp) (or_date (tc_dueDate inp) now)
          (tc_priority inp) uid (tc_stageExternalID inp)))) st"

text \<open>
  \<open>task.update\<close>: the patch is computed from the input and the row fetched first, the
  stage to connect must exist, and the resolver returns the row it fetched.
\<close>

definition task_update ::
  "Context \<Rightarrow> task_update_input \<Rightarrow> store \<Rightarrow> (error + task_full) \<times> store" where
  "task_update ctx inp st =
     mutation
       (and_then (ctx_user_externalID ctx) (\<lambda>uid.
        and_then (task_find st (tu_externalID inp) uid) (\<lambda>(task, u, stage, board).
        and_then (the_stage st (or_string (tu_stageExternalID inp) (s_externalID stage))) (\<lambda>s'.
        and_then (update (\<lambda>t. t_externalID t = tu_externalID inp)
                    (\<lambda>t. t\<lparr>t_title := or_string (tu_title inp) (t_title task),
                           t_description := or_nullable (tu_description inp) (t_description task),
                           t_dueDate := or_date (tu_dueDate inp) (t_dueDate task),
                           t_priority := or_number (tu_priority inp) (t_priority task),
                           t_stage := s_externalID s'\<rparr>)
                    (tasks st)) (\<lambda>(t', ts).
        Inr ((task, u, stage, board), st\<lparr>tasks := ts\<rparr>)))))) st"

definition task_delete :: "Context \<Rightarrow> id_input \<Rightarrow> store \<Rightarrow> (error + unit) \<times> store" where
  "task_delete ctx inp st =
     mutation
       (and_then (ctx_user_externalID ctx) (\<lambda>uid.
        and_then (findFirstOrThrow (\<lambda>t. t_externalID t = externalID inp \<and> \<not> t_deleted t
                                        \<and> t_createdBy t = uid) (tasks st)) (\<lambda>_.
        and_then (update (\<lambda>t. t_externalID t = externalID inp) (\<lambda>t. t\<lparr>t_deleted := True\<rparr>)
                    (tasks st)) (\<lambda>(t, ts).
        Inr ((), st\<lparr>tasks := ts\<rparr>))))) st"


section \<open>The user router\<close>

record user_update_input =
  uu_externalID :: string
  uu_name :: "string option"
  uu_email :: "string option"
  uu_password :: "string option"

text \<open>The object that \<open>user.me\<close> and \<open>user.updateUser\<close> build from a row.\<close>

record user_output =
  o_externalID :: string
  o_username :: string
  o_name :: string
  o_email :: string

definition user_fields :: "User \<Rightarrow> user_output" where
  "user_fields u =
     \<lparr>o_externalID = u_externalID u, o_username = u_username u, o_name = u_name u,
      o_email = u_email u\<rparr>"

text \<open>\<open>user.me\<close> has no \<open>try\<close>: it reads \<open>ctx.user\<close> and nothing else.\<close>

definition user_me :: "Context \<Rightarrow> unit \<Rightarrow> store \<Rightarrow> (error + user_output) \<times> store" where
  "user_me ctx inp st =
     (case user ctx of
        None \<Rightarrow> (Inl TypeError, st)
      | Some u \<Rightarrow> (Inr (user_fields u), st))"

text \<open>
  \<open>user.updateUser\<close>; \<open>hash\<close> is \<open>bcrypt.hash(_, 10)\<close>. The row is the caller's, found
  and written by \<open>ctx.user.externalID\<close>.
\<close>

definition user_updateUser ::
  "(string \<Rightarrow> string) \<Rightarrow> Context \<Rightarrow> user_update_input \<Rightarrow> store \<Rightarrow> (error + user_output) \<times> store" where
  "user_updateUser hash ctx inp st =
     mutation
       (and_then (ctx_user_externalID ctx) (\<lambda>uid.
        case findFirst (\<lambda>u. u_externalID u = uid \<and> \<not> u_deleted u) (users st) of
          None \<Rightarrow> Inl (TRPCError NOT_FOUND)
        | Some existingUser \<Rightarrow>
            let password = (case uu_password inp of
                              None \<Rightarrow> None
                            | Some p \<Rightarrow> if p = [] then Some p else Some (hash p))
            in and_then (update (\<lambda>u. u_externalID u = uid)
                           (\<lambda>u. u\<lparr>u_name := (case uu_name inp of None \<Rightarrow> u_name u | Some n \<Rightarrow> n),
                                  u_email := (case uu_email inp of None \<Rightarrow> u_email u | Some e \<Rightarrow> e),
                                  u_password := (case password of
                                                   None \<Rightarrow> u_password u | Some h \<Rightarrow> h)\<rparr>)
                           (users st)) (\<lambda>(updatedUser, us).
               Inr (user_fields updatedUser, st\<lparr>users := us\<rparr>)))) st"

definition user_deleteUser :: "Context \<Rightarrow> id_input \<Rightarrow> store \<Rightarrow> (error + unit) \<times> store" where
  "user_deleteUser ctx inp st =
     mutation
       (and_then (ctx_user_externalID ctx) (\<lambda>uid.
        and_then (update (\<lambda>u. u_externalID u = uid) (\<lambda>u. u\<lparr>u_deleted := True\<rparr>)
                    (users st)) (\<lambda>(u, us).
        Inr ((), st\<lparr>users := us\<rparr>)))) st"

section \<open>The auth router and the context\<close>

text \<open>
  The signing library. A verified token decodes to the string or the object that was
  signed; \<open>login\<close> signs the object \<open>{ externalID }\<close>. \<open>jwt.sign\<close> and \<open>jwt.verify\<close> are
  arguments of the procedures that call them: \<open>sign payload secret expiresIn clock\<close>
  and \<open>verify token secret clock\<close>, the clock in seconds.
\<close>

datatype jwt_payload = JwtString string | JwtObject "string option"

type_synonym jwt_sign = "jwt_payload \<Rightarrow> string \<Rightarrow> nat \<Rightarrow> nat \<Rightarrow> string"
type_synonym jwt_verify = "string \<Rightarrow> string \<Rightarrow> nat \<Rightarrow> error + jwt_payload"

record register_input =
  rg_username :: string
  rg_name :: string
  rg_email :: string
  rg_password :: string

record login_input =
  li_username :: string
  li_password :: string

text \<open>
  \<open>auth.register\<close> (the revision with the \<open>try\<close>): the \<open>BAD_REQUEST\<close> for a taken
  username is thrown inside the \<open>try\<close> and leaves it as \<open>INTERNAL_SERVER_ERROR\<close>.
  Usernames and identifiers are unique columns.
\<close>

definition create_user ::
  "store \<Rightarrow> string \<Rightarrow> string \<Rightarrow> string \<Rightarrow> string \<Rightarrow> string \<Rightarrow> error + (User \<times> store)" where
  "create_user st uuid username name email password =
     (if uuid \<in> set (map u_externalID (users st)) \<or> username \<in> set (map u_username (users st))
      then Inl PrismaClientError
      else
        let u = \<lparr>u_externalID = uuid, u_username = username, u_name = name, u_email = email,
                 u_password = password, u_deleted = False\<rparr>
        in Inr (u, st\<lparr>users := users st @ [u]\<rparr>))"

definition auth_register ::
  "(string \<Rightarrow> string) \<Rightarrow> string \<Rightarrow> Context \<Rightarrow> register_input \<Rightarrow> store \<Rightarrow>
   (error + user_output) \<times> store" where
  "auth_register hash uuid ctx inp st =
     mutation
       (case findFirst (\<lambda>u. u_username u = rg_username inp) (users st) of
          Some existingUser \<Rightarrow> Inl (TRPCError BAD_REQUEST)
        | None \<Rightarrow>
            and_then (create_user st uuid (rg_username inp) (rg_name inp) (rg_email inp)
                        (hash (rg_password inp))) (\<lambda>(u, st').
            Inr (user_fields u, st'))) st"

text \<open>
  \<open>auth.login\<close> (the revision with the \<open>try\<close>, as for \<open>register\<close>); \<open>compare\<close> is
  \<open>bcrypt.compare\<close>, \<open>secret\<close> is \<open>env.JWT_SECRET\<close>, the token expires in one day
  (\<open>expiresIn: "1d"\<close>, 86400 seconds).
\<close>

definition auth_login ::
  "(string \<Rightarrow> string \<Rightarrow> bool) \<Rightarrow> jwt_sign \<Rightarrow> string \<Rightarrow> nat \<Rightarrow>
   Context \<Rightarrow> login_input \<Rightarrow> store \<Rightarrow> (error + string) \<times> store" where
  "auth_login compare sign secret clock ctx inp st =
     query
       (case findFirst (\<lambda>u. u_username u = li_username inp) (users st) of
          None \<Rightarrow> Inl (TRPCError BAD_REQUEST)
        | Some u \<Rightarrow>
            if \<not> compare (li_password inp) (u_password u) then Inl (TRPCError BAD_REQUEST)
            else Inr (sign (JwtObject (Some (u_externalID u))) secret 86400 clock)) st"

text \<open>
  \<open>createContext\<close>. \<open>authorization\<close> is the request header, if any;
  \<open>header.split(' ')[1]\<close> is its second field, and a missing or empty one makes the
  context anonymous. \<open>jwt.verify\<close> throws on a token it does not accept, and nothing
  here catches that. A payload without a string \<open>externalID\<close> makes the lookup throw.
\<close>

fun js_split :: "char \<Rightarrow> string \<Rightarrow> string list" where
  "js_split c [] = [[]]"
| "js_split c (x # xs) =
     (if x = c then [] # js_split c xs
      else (case js_split c xs of
              [] \<Rightarrow> [[x]]
            | w # ws \<Rightarrow> (x # w) # ws))"

definition bearer_token :: "string option \<Rightarrow> string option" where
  "bearer_token authorization =
     (case authorization of
        None \<Rightarrow> None
      | Some h \<Rightarrow> (case js_split (CHR '' '') h of
                     _ # t # _ \<Rightarrow> Some t
                   | _ \<Rightarrow> None))"

definition findUnique_user :: "store \<Rightarrow> string option \<Rightarrow> error + User option" where
  "findUnique_user st eid =
     (case eid of
        None \<Rightarrow> Inl PrismaClientError
      | Some e \<Rightarrow> Inr (findFirst (\<lambda>u. u_externalID u = e) (users st)))"

definition createContext ::
  "jwt_verify \<Rightarrow> string \<Rightarrow> nat \<Rightarrow> string option \<Rightarrow> store \<Rightarrow> error + Context" where
  "createContext verify secret clock authorization st =
     (case bearer_token authorization of
        None \<Rightarrow> Inr \<lparr>user = None\<rparr>
      | Some token \<Rightarrow>
          if token = [] then Inr \<lparr>user = None\<rparr>
          else
            and_then (verify token secret clock) (\<lambda>jsonObj.
            and_then (findUnique_user st
                        (case jsonObj of JwtString _ \<Rightarrow> None | JwtObject e \<Rightarrow> e)) (\<lambda>u.
            Inr \<lparr>user = u\<rparr>)))"


text \<open>
  The revision of \<open>createContext\<close> in \<open>src/context.ts\<close> reads the verified payload as
  the identifier itself (\<open>jwt.verify(token, env.JWT_SECRET) as string\<close>): an object
  payload, which is what \<open>login\<close> signs, is no string and the lookup throws.
\<close>

definition createContext_string ::
  "jwt_verify \<Rightarrow> string \<Rightarrow> nat \<Rightarrow> string option \<Rightarrow> store \<Rightarrow> error + Context" where
  "createContext_string verify secret clock authorization st =
     (case bearer_token authorization of
        None \<Rightarrow> Inr \<lparr>user = None\<rparr>
      | Some token \<Rightarrow>
          if token = [] then Inr \<lparr>user = None\<rparr>
          else
            and_then (verify token secret clock) (\<lambda>userExternalID.
            and_then (findUnique_user st
                        (case userExternalID of JwtString e \<Rightarrow> Some e | JwtObject _ \<Rightarrow> None)) (\<lambda>u.
            Inr \<lparr>user = u\<rparr>)))"

section \<open>The routers\<close>

text \<open>Every procedure of the board, stage, task and user routers is a
  \<open>protectedProcedure\<close>, those of the auth router are \<open>publicProcedure\<close>s.\<close>

definition boardRouter_list where "boardRouter_list = protectedProcedure board_list"
definition boardRouter_get where "boardRouter_get = protectedProcedure board_get"
definition boardRouter_create where "boardRouter_create uuid = protectedProcedure (board_create uuid)"
definition boardRouter_update where "boardRouter_update = protectedProcedure board_update"
definition boardRouter_delete where "boardRouter_delete = protectedProcedure board_delete"

definition stageRouter_list where "stageRouter_list = protectedProcedure stage_list"
definition stageRouter_get where "stageRouter_get = protectedProcedure stage_get"
definition stageRouter_create where "stageRouter_create uuid = protectedProcedure (stage_create uuid)"
definition stageRouter_update where "stageRouter_update = protectedProcedure stage_update"
definition stageRouter_delete where "stageRouter_delete = protectedProcedure stage_delete"

definition taskRouter_list where "taskRouter_list = protectedProcedure task_list"
definition taskRouter_get where "taskRouter_get = protectedProcedure task_get"
definition taskRouter_create where
  "taskRouter_create uuid now = protectedProcedure (task_create uuid now)"
definition taskRouter_update where "taskRouter_update = protectedProcedure task_update"
definition taskRouter_delete where "taskRouter_delete = protectedProcedure task_delete"

definition userRouter_me where "userRouter_me = protectedProcedure user_me"
definition userRouter_updateUser where
  "userRouter_updateUser hash = protectedProcedure (user_updateUser hash)"
definition userRouter_deleteUser where "userRouter_deleteUser = protectedProcedure user_deleteUser"

definition authRouter_register where
  "authRouter_register hash uuid = publicProcedure (auth_register hash uuid)"
definition authRouter_login where
  "authRouter_login compare sign secret clock = publicProcedure (auth_login compare sign secret clock)"

text \<open>
  A request names a procedure and carries its input; \<open>appRouter\<close> runs the procedure.
  What a procedure takes from outside the request is in \<open>env\<close>: the hashing and signing
  libraries, the secret, the clock (milliseconds) and the identifier the database gives
  the next row. The stage and task routers are mounted beside the three that the
  \<open>appRouter\<close> revision in the sources lists.
\<close>

record env =
  bcrypt_hash :: "string \<Rightarrow> string"
  bcrypt_compare :: "string \<Rightarrow> string \<Rightarrow> bool"
  jwt_sign :: jwt_sign
  JWT_SECRET :: string
  env_now :: int
  env_uuid :: string

datatype request =
    AuthRegister register_input
  | AuthLogin login_input
  | UserMe
  | UserUpdateUser user_update_input
  | UserDeleteUser id_input
  | BoardList list_input
  | BoardGet id_input
  | BoardCreate board_create_input
  | BoardUpdate board_update_input
  | BoardDelete id_input
  | StageList list_input
  | StageGet id_input
  | StageCreate stage_create_input
  | StageUpdate stage_update_input
  | StageDelete id_input
  | TaskList list_input
  | TaskGet id_input
  | TaskCreate task_create_input
  | TaskUpdate task_update_input
  | TaskDelete id_input

datatype response =
    UserOut user_output
  | TokenOut string
  | Empty
  | BoardsOut "board_incl list"
  | BoardOut board_incl
  | BoardFullOut board_full
  | StagesOut "stage_incl list"
  | StageOut stage_incl
  | StageFullOut stage_full
  | TasksOut "task_incl list"
  | TaskFullOut task_full

definition respond :: "('a \<Rightarrow> response) \<Rightarrow> (error + 'a) \<times> store \<Rightarrow> (error + response) \<times> store" where
  "respond k r = (case r of (Inl e, st) \<Rightarrow> (Inl e, st) | (Inr x, st) \<Rightarrow> (Inr (k x), st))"

fun appRouter :: "env \<Rightarrow> Context \<Rightarrow> request \<Rightarrow> store \<Rightarrow> (error + response) \<times> store" where
  "appRouter ev ctx (AuthRegister i) st =
     respond UserOut (authRouter_register (bcrypt_hash ev) (env_uuid ev) ctx i st)"
| "appRouter ev ctx (AuthLogin i) st =
     respond TokenOut (authRouter_login (bcrypt_compare ev) (jwt_sign ev) (JWT_SECRET ev)
                         (nat (env_now ev div 1000)) ctx i st)"
| "appRouter ev ctx UserMe st = respond UserOut (userRouter_me ctx () st)"
| "appRouter ev ctx (UserUpdateUser i) st =
     respond UserOut (userRouter_updateUser (bcrypt_hash ev) ctx i st)"
| "appRouter ev ctx (UserDeleteUser i) st = respond (\<lambda>_. Empty) (userRouter_deleteUser ctx i st)"
| "appRouter ev ctx (BoardList i) st = respond BoardsOut (boardRouter_list ctx i st)"
| "appRouter ev ctx (BoardGet i) st = respond BoardFullOut (boardRouter_get ctx i st)"
| "appRouter ev ctx (BoardCreate i) st = respond BoardOut (boardRouter_create (env_uuid ev) ctx i st)"
| "appRouter ev ctx (BoardUpdate i) st = respond BoardOut (boardRouter_update ctx i st)"
| "appRouter ev ctx (BoardDelete i) st = respond (\<lambda>_. Empty) (boardRouter_delete ctx i st)"
| "appRouter ev ctx (StageList i) st = respond StagesOut (stageRouter_list ctx i st)"
| "appRouter ev ctx (StageGet i) st = respond StageFullOut (stageRouter_get ctx i st)"
| "appRouter ev ctx (StageCreate i) st = respond StageOut (stageRouter_create (env_uuid ev) ctx i st)"
| "appRouter ev ctx (StageUpdate i) st = respond StageOut (stageRouter_update ctx i st)"
| "appRouter ev ctx (StageDelete i) st = respond (\<lambda>_. Empty) (stageRouter_delete ctx i st)"
| "appRouter ev ctx (TaskList i) st = respond TasksOut (taskRouter_list ctx i st)"
| "appRouter ev ctx (TaskGet i) st = respond TaskFullOut (taskRouter_get ctx i st)"
| "appRouter ev ctx (TaskCreate i) st =
     respond TaskFullOut (taskRouter_create (env_uuid ev) (env_now ev) ctx i st)"
| "appRouter ev ctx (TaskUpdate i) st = respond TaskFullOut (taskRouter_update ctx i st)"
| "appRouter ev ctx (TaskDelete i) st = respond (\<lambda>_. Empty) (taskRouter_delete ctx i st)"

fun is_auth :: "request \<Rightarrow> bool" where
  "is_auth (AuthRegister _) = True"
| "is_auth (AuthLogin _) = True"
| "is_auth _ = False"


text \<open>A history of calls, each with its own environment and context, run in order.\<close>

type_synonym call = "env \<times> Context \<times> request"

fun run :: "call list \<Rightarrow> store \<Rightarrow> store" where
  "run [] st = st"
| "run ((ev, ctx, req) # cs) st = run cs (snd (appRouter ev ctx req st))"

definition empty_store :: store where
  "empty_store = \<lparr>users = [], boards = [], stages = [], tasks = []\<rparr>"

section \<open>Vocabulary of the properties\<close>

text \<open>The owner of a row is not the caller: the context is anonymous, or its user has
  another identifier.\<close>

definition foreign :: "Context \<Rightarrow> string \<Rightarrow> bool" where
  "foreign ctx owner = (case user ctx of None \<Rightarrow> True | Some u \<Rightarrow> u_externalID u \<noteq> owner)"

text \<open>What a caller gets for a row that is not theirs: the middleware's \<open>UNAUTHORIZED\<close>
  without a user, and otherwise the \<open>INTERNAL_SERVER_ERROR\<close> in which every resolver
  wraps the failed lookup.\<close>

definition refusal :: "Context \<Rightarrow> error" where
  "refusal ctx = TRPCError (if user ctx = None then UNAUTHORIZED else INTERNAL_SERVER_ERROR)"

text \<open>
  What an update leaves of a row: its identifier, owner, parent and deletion flag, and
  every field for which the input holds no value. The input of \<open>stage.update\<close> always
  holds a title and a description.
\<close>

definition board_kept :: "board_update_input \<Rightarrow> Board \<Rightarrow> Board \<Rightarrow> bool" where
  "board_kept inp b b' \<longleftrightarrow>
     b_externalID b' = b_externalID b \<and> b_createdBy b' = b_createdBy b
     \<and> b_deleted b' = b_deleted b
     \<and> (bu_title inp = None \<longrightarrow> b_title b' = b_title b)
     \<and> (bu_description inp = None \<longrightarrow> b_description b' = b_description b)"

definition stage_kept :: "Stage \<Rightarrow> Stage \<Rightarrow> bool" where
  "stage_kept s s' \<longleftrightarrow>
     s_externalID s' = s_externalID s \<and> s_createdBy s' = s_createdBy s
     \<and> s_board s' = s_board s \<and> s_deleted s' = s_deleted s"

definition task_kept :: "task_update_input \<Rightarrow> Task \<Rightarrow> Task \<Rightarrow> bool" where
  "task_kept inp t t' \<longleftrightarrow>
     t_externalID t' = t_externalID t \<and> t_createdBy t' = t_createdBy t
     \<and> t_deleted t' = t_deleted t
     \<and> (tu_title inp = None \<longrightarrow> t_title t' = t_title t)
     \<and> (tu_description inp = None \<longrightarrow> t_description t' = t_description t)
     \<and> (tu_dueDate inp = None \<longrightarrow> t_dueDate t' = t_dueDate t)
     \<and> (tu_priority inp = None \<longrightarrow> t_priority t' = t_priority t)
     \<and> (tu_stageExternalID inp = None \<longrightarrow> t_stage t' = t_stage t)"

text \<open>A table after an update: every row is as before, but for the row with the given
  identifier, which is related to its old value by \<open>R\<close>.\<close>

definition patched :: "('a \<Rightarrow> string) \<Rightarrow> string \<Rightarrow> ('a \<Rightarrow> 'a \<Rightarrow> bool) \<Rightarrow> 'a list \<Rightarrow> 'a list \<Rightarrow> bool" where
  "patched key eid R xs ys = list_all2 (\<lambda>x y. y = x \<or> (key x = eid \<and> R x y)) xs ys"

text \<open>The owner chain: a stage belongs to the owner of its board, a task to the owner of
  its stage.\<close>

definition owner_chain :: "store \<Rightarrow> bool" where
  "owner_chain st \<longleftrightarrow>
     list_all (\<lambda>s. list_all (\<lambda>b. b_createdBy b = s_createdBy s)
                      (filter (\<lambda>b. b_externalID b = s_board s) (boards st))) (stages st)
     \<and> list_all (\<lambda>t. list_all (\<lambda>s. s_createdBy s = t_createdBy t)
                      (filter (\<lambda>s. s_externalID s = t_stage t) (stages st))) (tasks st)"

text \<open>
  The identifiers of each table are unique (the schema's constraint). A table evolves in
  a call when its rows keep their identifiers and owners, or when one row with a new
  identifier is appended.
\<close>

definition unique_ids :: "store \<Rightarrow> bool" where
  "unique_ids st \<longleftrightarrow>
     distinct (map u_externalID (users st)) \<and> distinct (map b_externalID (boards st))
     \<and> distinct (map s_externalID (stages st)) \<and> distinct (map t_externalID (tasks st))"

definition evolves :: "('a \<Rightarrow> string) \<Rightarrow> ('a \<Rightarrow> string) \<Rightarrow> 'a list \<Rightarrow> 'a list \<Rightarrow> bool" where
  "evolves key owner xs ys \<longleftrightarrow>
     (map key ys = map key xs \<and> map owner ys = map owner xs)
     \<or> (\<exists>y. ys = xs @ [y] \<and> key y \<notin> set (map key xs))"

definition store_evolves :: "store \<Rightarrow> store \<Rightarrow> bool" where
  "store_evolves st st' \<longleftrightarrow>
     evolves u_externalID u_externalID (users st) (users st')
     \<and> evolves b_externalID b_createdBy (boards st) (boards st')
     \<and> evolves s_externalID s_createdBy (stages st) (stages st')
     \<and> evolves t_externalID t_createdBy (tasks st) (tasks st')"

section \<open>Sample data\<close>

text \<open>
  Two users, their boards, stages and a task, used where a property is run on a
  concrete store. The stage \<open>s-2\<close> has been soft-deleted.
\<close>

definition alice :: User where
  "alice = \<lparr>u_externalID = ''u-alice'', u_username = ''alice'', u_name = ''Alice'',
            u_email = ''alice@example.org'', u_password = ''hash:wonderland'',
            u_deleted = False\<rparr>"

definition bob :: User where
  "bob = \<lparr>u_externalID = ''u-bob'', u_username = ''bob'', u_name = ''Bob'',
          u_email = ''bob@example.org'', u_password = ''hash:builder'',
          u_deleted = False\<rparr>"

definition sprint1 :: Board where
  "sprint1 = \<lparr>b_externalID = ''b-1'', b_title = ''Sprint 1'', b_description = [],
              b_createdBy = ''u-alice'', b_deleted = False\<rparr>"

definition backlog :: Board where
  "backlog = \<lparr>b_externalID = ''b-2'', b_title = ''Review'', b_description = ''of Bob'',
              b_createdBy = ''u-bob'', b_deleted = False\<rparr>"

definition todo :: Stage where
  "todo = \<lparr>s_externalID = ''s-1'', s_title = ''Todo'', s_description = ''open'',
           s_createdBy = ''u-alice'', s_board = ''b-1'', s_deleted = False\<rparr>"

definition archived :: Stage where
  "archived = \<lparr>s_externalID = ''s-2'', s_title = ''Old'', s_description = ''closed'',
               s_createdBy = ''u-alice'', s_board = ''b-1'', s_deleted = True\<rparr>"

definition write_spec :: Task where
  "write_spec = \<lparr>t_externalID = ''t-1'', t_title = ''Write'', t_description = Some [],
                 t_dueDate = 1000, t_priority = 0, t_createdBy = ''u-alice'',
                 t_stage = ''s-1'', t_deleted = False\<rparr>"

definition sample_store :: store where
  "sample_store = \<lparr>users = [alice, bob], boards = [sprint1, backlog],
                   stages = [todo, archived], tasks = [write_spec]\<rparr>"

definition fresh_store :: store where
  "fresh_store = \<lparr>users = [alice, bob], boards = [], stages = [], tasks = []\<rparr>"

text \<open>
  Stand-ins for the hashing and signing libraries on the sample data: the hash of a
  password is the password behind a tag; the one token is the one signed for Alice at
  clock 0 with the sample secret, accepted until it expires a day later.
\<close>

definition sample_hash :: "string \<Rightarrow> string" where
  "sample_hash p = ''hash:'' @ p"

definition sample_compare :: "string \<Rightarrow> string \<Rightarrow> bool" where
  "sample_compare p h = (h = ''hash:'' @ p)"

definition sample_sign :: jwt_sign where
  "sample_sign payload secret expiresIn clock =
     (case payload of
        JwtObject (Some e) \<Rightarrow> e @ ''.'' @ secret
      | _ \<Rightarrow> ''none'')"

definition sample_verify :: jwt_verify where
  "sample_verify token secret clock =
     (if token = ''u-alice.s3cret'' \<and> secret = ''s3cret''
      then (if clock < 86400 then Inr (JwtObject (Some ''u-alice'')) else Inl TokenExpiredError)
      else Inl JsonWebTokenError)"

definition sample_env :: env where
  "sample_env = \<lparr>bcrypt_hash = sample_hash, bcrypt_compare = sample_compare,
                 jwt_sign = sample_sign, JWT_SECRET = ''s3cret'', env_now = 0, env_uuid = ''b-3''\<rparr>"

section \<open>Basic facts\<close>

lemma and_then_simps:
  "and_then (Inl e) f = Inl e" "and_then (Inr x) f = f x"
  by (simp_all add: and_then_def)

lemma mutation_simps:
  "mutation (Inl e) st = (Inl (TRPCError INTERNAL_SERVER_ERROR), st)"
  "mutation (Inr (out, st')) st = (Inr out, st')"
  by (simp_all add: mutation_def)

lemma query_simps:
  "query (Inl e) st = (Inl (TRPCError INTERNAL_SERVER_ERROR), st)"
  "query (Inr x) st = (Inr x, st)"
  by (simp_all add: query_def try_catch_def)

lemmas router_defs =
  boardRouter_list_def boardRouter_get_def boardRouter_create_def boardRouter_update_def
  boardRouter_delete_def stageRouter_list_def stageRouter_get_def stageRouter_create_def
  stageRouter_update_def stageRouter_delete_def taskRouter_list_def taskRouter_get_def
  taskRouter_create_def taskRouter_update_def taskRouter_delete_def userRouter_me_def
  userRouter_updateUser_def userRouter_deleteUser_def

lemmas sample_defs =
  sample_store_def fresh_store_def alice_def bob_def sprint1_def backlog_def todo_def
  archived_def write_spec_def

section \<open>Authentication is required\<close>

text \<open>
  C2. Every procedure other than \<open>auth.register\<close> and \<open>auth.login\<close>, called with a
  context whose user is \<open>null\<close>, fails with \<open>UNAUTHORIZED\<close> and leaves the store as it was.
\<close>

theorem unauthenticated_rejected:
  "user ctx = None \<Longrightarrow> \<not> is_auth req \<Longrightarrow>
   appRouter ev ctx req st = (Inl (TRPCError UNAUTHORIZED), st)"
  by (cases req) (simp_all add: router_defs protectedProcedure_def respond_def)

theorem unauthenticated_rejected_witness:
  "user \<lparr>user = None\<rparr> = None \<and> \<not> is_auth (BoardDelete \<lparr>externalID = ''b-1''\<rparr>)
   \<and> appRouter sample_env \<lparr>user = None\<rparr> (BoardDelete \<lparr>externalID = ''b-1''\<rparr>) sample_store
       = (Inl (TRPCError UNAUTHORIZED), sample_store)"
  using unauthenticated_rejected [of "\<lparr>user = None\<rparr>" "BoardDelete \<lparr>externalID = ''b-1''\<rparr>"
      sample_env sample_store]
  by simp


text \<open>
  The resolvers themselves, without the middleware: on a null user each of them throws
  at \<open>ctx.user.externalID\<close> before it reaches the store, and the caller sees
  \<open>INTERNAL_SERVER_ERROR\<close> (from \<open>user.me\<close>, which has no \<open>try\<close>, the \<open>TypeError\<close>).
\<close>

lemma resolvers_reject_null_user:
  assumes "user ctx = None"
  shows "board_list ctx li st = (Inl (TRPCError INTERNAL_SERVER_ERROR), st)"
    and "board_get ctx i st = (Inl (TRPCError INTERNAL_SERVER_ERROR), st)"
    and "board_create uuid ctx bc st = (Inl (TRPCError INTERNAL_SERVER_ERROR), st)"
    and "board_update ctx bu st = (Inl (TRPCError INTERNAL_SERVER_ERROR), st)"
    and "board_delete ctx i st = (Inl (TRPCError INTERNAL_SERVER_ERROR), st)"
    and "stage_list ctx li st = (Inl (TRPCError INTERNAL_SERVER_ERROR), st)"
    and "stage_get ctx i st = (Inl (TRPCError INTERNAL_SERVER_ERROR), st)"
    and "stage_create uuid ctx sc st = (Inl (TRPCError INTERNAL_SERVER_ERROR), st)"
    and "stage_update ctx su st = (Inl (TRPCError INTERNAL_SERVER_ERROR), st)"
    and "stage_delete ctx i st = (Inl (TRPCError INTERNAL_SERVER_ERROR), st)"
    and "task_list ctx li st = (Inl (TRPCError INTERNAL_SERVER_ERROR), st)"
    and "task_get ctx i st = (Inl (TRPCError INTERNAL_SERVER_ERROR), st)"
    and "task_create uuid now ctx tc st = (Inl (TRPCError INTERNAL_SERVER_ERROR), st)"
    and "task_update ctx tu st = (Inl (TRPCError INTERNAL_SERVER_ERROR), st)"
    and "task_delete ctx i st = (Inl (TRPCError INTERNAL_SERVER_ERROR), st)"
    and "user_me ctx () st = (Inl TypeError, st)"
    and "user_updateUser hash ctx uu st = (Inl (TRPCError INTERNAL_SERVER_ERROR), st)"
    and "user_deleteUser ctx i st = (Inl (TRPCError INTERNAL_SERVER_ERROR), st)"
  using assms
  by (simp_all add: board_list_def board_get_def board_create_def board_update_def
      board_delete_def stage_list_def stage_get_def stage_create_def stage_update_def
      stage_delete_def task_list_def task_get_def task_create_def task_update_def
      task_delete_def user_me_def user_updateUser_def user_deleteUser_def
      ctx_user_externalID_def and_then_simps query_simps mutation_simps)

section \<open>The store over a history of calls\<close>

lemma evolves_refl: "evolves key owner xs xs"
  by (simp add: evolves_def)

lemma store_evolves_refl: "store_evolves st st"
  by (simp add: store_evolves_def evolves_refl)

lemma update_row_maps:
  assumes "update_row P f xs = Some (y, ys)" and "\<And>x. g (f x) = g x"
  shows "map g ys = map g xs"
  using assms(1)
  by (induction xs arbitrary: y ys) (auto simp: assms(2) split: option.splits if_splits)

lemma update_evolves:
  assumes "update P f xs = Inr (y, ys)" and "\<And>x. key (f x) = key x" and "\<And>x. owner (f x) = owner x"
  shows "evolves key owner xs ys"
proof -
  from assms(1) have u: "update_row P f xs = Some (y, ys)"
    by (simp add: update_def split: option.splits)
  show ?thesis
    using update_row_maps [OF u, of key] update_row_maps [OF u, of owner] assms(2,3)
    by (simp add: evolves_def)
qed

lemma append_evolves: "key y \<notin> set (map key xs) \<Longrightarrow> evolves key owner xs (xs @ [y])"
  by (auto simp: evolves_def)

lemma evolves_distinct:
  "evolves key owner xs ys \<Longrightarrow> distinct (map key xs) \<Longrightarrow> distinct (map key ys)"
  by (auto simp: evolves_def)

lemma evolves_stays:
  assumes "evolves key owner xs ys" and "x \<in> set xs"
  shows "\<exists>y\<in>set ys. key y = key x \<and> owner y = owner x"
proof -
  from assms(2) obtain i where i: "i < length xs" "xs ! i = x"
    by (auto simp: in_set_conv_nth)
  from assms(1) show ?thesis unfolding evolves_def
  proof
    assume m: "map key ys = map key xs \<and> map owner ys = map owner xs"
    then have l: "length ys = length xs" by (metis length_map)
    have "key (ys ! i) = key x" "owner (ys ! i) = owner x"
      using m i l by (metis nth_map)+
    then show ?thesis using i l by (metis nth_mem)
  next
    assume "\<exists>y. ys = xs @ [y] \<and> key y \<notin> set (map key xs)"
    then show ?thesis using assms(2) by auto
  qed
qed

lemma snd_query: "snd (query r st) = st"
  by (simp add: query_def)

lemma snd_protected:
  "snd (protectedProcedure resolver ctx inp st) = (if user ctx = None then st else snd (resolver ctx inp st))"
  by (simp add: protectedProcedure_def)

lemma snd_respond: "snd (respond k r) = snd r"
  by (cases r) (auto simp: respond_def split: sum.splits)

lemma snd_mutation:
  "snd (mutation r st) = (case r of Inl e \<Rightarrow> st | Inr (out, st') \<Rightarrow> st')"
  by (auto simp: mutation_def split: sum.splits)

lemma board_create_evolves: "store_evolves st (snd (board_create uuid ctx inp st))"
  by (auto simp: board_create_def create_board_def snd_mutation and_then_def Let_def
      store_evolves_def evolves_refl intro!: append_evolves split: sum.splits if_splits)

lemma board_update_evolves: "store_evolves st (snd (board_update ctx inp st))"
  by (auto simp: board_update_def snd_mutation and_then_def
      store_evolves_def evolves_refl intro!: update_evolves split: sum.splits)

lemma board_delete_evolves: "store_evolves st (snd (board_delete ctx inp st))"
  by (auto simp: board_delete_def snd_mutation and_then_def
      store_evolves_def evolves_refl intro!: update_evolves split: sum.splits)

lemma stage_create_evolves: "store_evolves st (snd (stage_create uuid ctx inp st))"
  by (auto simp: stage_create_def create_stage_def snd_mutation and_then_def Let_def
      store_evolves_def evolves_refl intro!: append_evolves split: sum.splits if_splits)

lemma stage_update_evolves: "store_evolves st (snd (stage_update ctx inp st))"
  by (auto simp: stage_update_def snd_mutation and_then_def
      store_evolves_def evolves_refl intro!: update_evolves split: sum.splits)

lemma stage_delete_evolves: "store_evolves st (snd (stage_delete ctx inp st))"
  by (auto simp: stage_delete_def snd_mutation and_then_def
      store_evolves_def evolves_refl intro!: update_evolves split: sum.splits)

lemma task_create_evolves: "store_evolves st (snd (task_create uuid now ctx inp st))"
  by (auto simp: task_create_def create_task_def snd_mutation and_then_def Let_def
      store_evolves_def evolves_refl intro!: append_evolves split: sum.splits if_splits)

lemma task_update_evolves: "store_evolves st (snd (task_update ctx inp st))"
  by (auto simp: task_update_def snd_mutation and_then_def
      store_evolves_def evolves_refl intro!: update_evolves split: sum.splits)

lemma task_delete_evolves: "store_evolves st (snd (task_delete ctx inp st))"
  by (auto simp: task_delete_def snd_mutation and_then_def
      store_evolves_def evolves_refl intro!: update_evolves split: sum.splits)

lemma user_updateUser_evolves: "store_evolves st (snd (user_updateUser hash ctx inp st))"
  by (auto simp: user_updateUser_def snd_mutation and_then_def Let_def
      store_evolves_def evolves_refl intro!: update_evolves split: sum.splits option.splits)

lemma user_deleteUser_evolves: "store_evolves st (snd (user_deleteUser ctx inp st))"
  by (auto simp: user_deleteUser_def snd_mutation and_then_def
      store_evolves_def evolves_refl intro!: update_evolves split: sum.splits)

lemma auth_register_evolves: "store_evolves st (snd (auth_register hash uuid ctx inp st))"
  by (auto simp: auth_register_def create_user_def snd_mutation and_then_def Let_def
      store_evolves_def evolves_refl intro!: append_evolves split: sum.splits option.splits if_splits)

lemmas resolver_evolves =
  board_create_evolves board_update_evolves board_delete_evolves
  stage_create_evolves stage_update_evolves stage_delete_evolves
  task_create_evolves task_update_evolves task_delete_evolves
  user_updateUser_evolves user_deleteUser_evolves auth_register_evolves

lemma appRouter_evolves: "store_evolves st (snd (appRouter ev ctx req st))"
  by (cases req)
     (simp_all add: snd_respond router_defs authRouter_register_def authRouter_login_def
        publicProcedure_def snd_protected resolver_evolves store_evolves_refl
        board_list_def board_get_def stage_list_def stage_get_def task_list_def task_get_def
        auth_login_def user_me_def snd_query split: option.splits)

lemma run_distinct_table:
  assumes step: "\<And>st ev ctx req. evolves key owner (tbl st) (tbl (snd (appRouter ev ctx req st)))"
  shows "distinct (map key (tbl st)) \<Longrightarrow> distinct (map key (tbl (run cs st)))"
proof (induction cs arbitrary: st)
  case Nil
  then show ?case by simp
next
  case (Cons c cs)
  obtain ev ctx req where c: "c = (ev, ctx, req)" by (cases c)
  have "distinct (map key (tbl (snd (appRouter ev ctx req st))))"
    using evolves_distinct [OF step Cons.prems] .
  then show ?case using Cons.IH c by simp
qed

lemma run_distinct:
  shows "distinct (map u_externalID (users st)) \<Longrightarrow> distinct (map u_externalID (users (run cs st)))"
    and "distinct (map b_externalID (boards st)) \<Longrightarrow> distinct (map b_externalID (boards (run cs st)))"
    and "distinct (map s_externalID (stages st)) \<Longrightarrow> distinct (map s_externalID (stages (run cs st)))"
    and "distinct (map t_externalID (tasks st)) \<Longrightarrow> distinct (map t_externalID (tasks (run cs st)))"
proof -
  note e = appRouter_evolves [unfolded store_evolves_def]
  show "distinct (map u_externalID (users st)) \<Longrightarrow> distinct (map u_externalID (users (run cs st)))"
    by (rule run_distinct_table [where tbl = users and owner = u_externalID]) (simp_all add: e)
  show "distinct (map b_externalID (boards st)) \<Longrightarrow> distinct (map b_externalID (boards (run cs st)))"
    by (rule run_distinct_table [where tbl = boards and owner = b_createdBy]) (simp_all add: e)
  show "distinct (map s_externalID (stages st)) \<Longrightarrow> distinct (map s_externalID (stages (run cs st)))"
    by (rule run_distinct_table [where tbl = stages and owner = s_createdBy]) (simp_all add: e)
  show "distinct (map t_externalID (tasks st)) \<Longrightarrow> distinct (map t_externalID (tasks (run cs st)))"
    by (rule run_distinct_table [where tbl = tasks and owner = t_createdBy]) (simp_all add: e)
qed

text \<open>Every store that a history of calls reaches from the empty one has unique
  identifiers.\<close>

lemma reachable_unique_ids: "unique_ids (run cs empty_store)"
  unfolding unique_ids_def
  by (intro conjI run_distinct) (simp_all add: empty_store_def)

lemma run_board_stays:
  "b \<in> set (boards st) \<Longrightarrow>
   \<exists>b'\<in>set (boards (run cs st)). b_externalID b' = b_externalID b \<and> b_createdBy b' = b_createdBy b"
proof (induction cs arbitrary: st b)
  case Nil
  then show ?case by auto
next
  case (Cons c cs)
  obtain ev ctx req where c: "c = (ev, ctx, req)" by (cases c)
  have "evolves b_externalID b_createdBy (boards st) (boards (snd (appRouter ev ctx req st)))"
    using appRouter_evolves [of st ev ctx req] by (simp add: store_evolves_def)
  from evolves_stays [OF this Cons.prems]
  obtain b1 where b1: "b1 \<in> set (boards (snd (appRouter ev ctx req st)))"
    "b_externalID b1 = b_externalID b" "b_createdBy b1 = b_createdBy b" by blast
  from Cons.IH [OF b1(1), of] show ?case using b1 c by force
qed

section \<open>Ownership isolation\<close>

lemma find_other_owner:
  assumes "distinct (map key xs)" and "x \<in> set xs" and "\<not> Q x"
  shows "find (\<lambda>y. key y = key x \<and> Q y) xs = None"
proof -
  have "inj_on key (set xs)" using assms(1) by (simp add: distinct_map)
  then have "\<And>y. y \<in> set xs \<Longrightarrow> key y = key x \<Longrightarrow> y = x"
    using assms(2) by (auto dest: inj_onD)
  then show ?thesis using assms(3) by (auto simp: find_None_iff)
qed

lemma foreign_Some: "user ctx = Some u \<Longrightarrow> foreign ctx owner \<Longrightarrow> u_externalID u \<noteq> owner"
  by (simp add: foreign_def)

lemma board_foreign:
  assumes d: "distinct (map b_externalID (boards st))" and b: "b \<in> set (boards st)"
    and f: "foreign ctx (b_createdBy b)"
  shows "boardRouter_get ctx \<lparr>externalID = b_externalID b\<rparr> st = (Inl (refusal ctx), st)"
    and "bu_externalID inp = b_externalID b \<Longrightarrow> boardRouter_update ctx inp st = (Inl (refusal ctx), st)"
    and "boardRouter_delete ctx \<lparr>externalID = b_externalID b\<rparr> st = (Inl (refusal ctx), st)"
proof -
  show "boardRouter_get ctx \<lparr>externalID = b_externalID b\<rparr> st = (Inl (refusal ctx), st)"
  proof (cases "user ctx")
    case None
    then show ?thesis by (simp add: boardRouter_get_def protectedProcedure_def refusal_def)
  next
    case (Some u)
    have "find (\<lambda>y. b_externalID y = b_externalID b \<and> (\<not> b_deleted y \<and> b_createdBy y = u_externalID u))
            (boards st) = None"
      using find_other_owner [OF d b] foreign_Some [OF Some f] by fastforce
    with Some show ?thesis
      by (simp add: boardRouter_get_def protectedProcedure_def refusal_def board_get_def
          ctx_user_externalID_def and_then_simps findFirst_def query_simps)
  qed
  show "boardRouter_update ctx inp st = (Inl (refusal ctx), st)" if i: "bu_externalID inp = b_externalID b"
  proof (cases "user ctx")
    case None
    then show ?thesis by (simp add: boardRouter_update_def protectedProcedure_def refusal_def)
  next
    case (Some u)
    have "find (\<lambda>y. b_externalID y = b_externalID b \<and> (\<not> b_deleted y \<and> b_createdBy y = u_externalID u))
            (boards st) = None"
      using find_other_owner [OF d b] foreign_Some [OF Some f] by fastforce
    with Some i show ?thesis
      by (simp add: boardRouter_update_def protectedProcedure_def refusal_def board_update_def
          ctx_user_externalID_def and_then_simps findFirstOrThrow_def mutation_simps)
  qed
  show "boardRouter_delete ctx \<lparr>externalID = b_externalID b\<rparr> st = (Inl (refusal ctx), st)"
  proof (cases "user ctx")
    case None
    then show ?thesis by (simp add: boardRouter_delete_def protectedProcedure_def refusal_def)
  next
    case (Some u)
    have "find (\<lambda>y. b_externalID y = b_externalID b \<and> (\<not> b_deleted y \<and> b_createdBy y = u_externalID u))
            (boards st) = None"
      using find_other_owner [OF d b] foreign_Some [OF Some f] by fastforce
    with Some show ?thesis
      by (simp add: boardRouter_delete_def protectedProcedure_def refusal_def board_delete_def
          ctx_user_externalID_def and_then_simps findFirstOrThrow_def mutation_simps)
  qed
qed


lemma stage_foreign:
  assumes d: "distinct (map s_externalID (stages st))" and b: "s \<in> set (stages st)"
    and f: "foreign ctx (s_createdBy s)"
  shows "stageRouter_get ctx \<lparr>externalID = s_externalID s\<rparr> st = (Inl (refusal ctx), st)"
    and "su_externalID inp = s_externalID s \<Longrightarrow> stageRouter_update ctx inp st = (Inl (refusal ctx), st)"
    and "stageRouter_delete ctx \<lparr>externalID = s_externalID s\<rparr> st = (Inl (refusal ctx), st)"
proof -
  have nf: "find (\<lambda>y. s_externalID y = s_externalID s \<and> (\<not> s_deleted y \<and> s_createdBy y = u_externalID u))
            (stages st) = None" if "user ctx = Some u" for u
    using find_other_owner [OF d b] foreign_Some [OF that f] by fastforce
  show "stageRouter_get ctx \<lparr>externalID = s_externalID s\<rparr> st = (Inl (refusal ctx), st)"
    using nf by (cases "user ctx")
      (simp_all add: stageRouter_get_def protectedProcedure_def refusal_def stage_get_def
          ctx_user_externalID_def and_then_simps findFirstOrThrow_def query_simps)
  show "stageRouter_update ctx inp st = (Inl (refusal ctx), st)" if "su_externalID inp = s_externalID s"
    using nf that by (cases "user ctx")
      (simp_all add: stageRouter_update_def protectedProcedure_def refusal_def stage_update_def
          ctx_user_externalID_def and_then_simps findFirstOrThrow_def mutation_simps)
  show "stageRouter_delete ctx \<lparr>externalID = s_externalID s\<rparr> st = (Inl (refusal ctx), st)"
    using nf by (cases "user ctx")
      (simp_all add: stageRouter_delete_def protectedProcedure_def refusal_def stage_delete_def
          ctx_user_externalID_def and_then_simps findFirstOrThrow_def mutation_simps)
qed

lemma task_foreign:
  assumes d: "distinct (map t_externalID (tasks st))" and b: "t \<in> set (tasks st)"
    and f: "foreign ctx (t_createdBy t)"
  shows "taskRouter_get ctx \<lparr>externalID = t_externalID t\<rparr> st = (Inl (refusal ctx), st)"
    and "tu_externalID inp = t_externalID t \<Longrightarrow> taskRouter_update ctx inp st = (Inl (refusal ctx), st)"
    and "taskRouter_delete ctx \<lparr>externalID = t_externalID t\<rparr> st = (Inl (refusal ctx), st)"
proof -
  have nf: "find (\<lambda>y. t_externalID y = t_externalID t \<and> (\<not> t_deleted y \<and> t_createdBy y = u_externalID u))
            (tasks st) = None" if "user ctx = Some u" for u
    using find_other_owner [OF d b] foreign_Some [OF that f] by fastforce
  show "taskRouter_get ctx \<lparr>externalID = t_externalID t\<rparr> st = (Inl (refusal ctx), st)"
    using nf by (cases "user ctx")
      (simp_all add: taskRouter_get_def protectedProcedure_def refusal_def task_get_def task_find_def
          ctx_user_externalID_def and_then_simps findFirstOrThrow_def query_simps)
  show "taskRouter_update ctx inp st = (Inl (refusal ctx), st)" if "tu_externalID inp = t_externalID t"
    using nf that by (cases "user ctx")
      (simp_all add: taskRouter_update_def protectedProcedure_def refusal_def task_update_def task_find_def
          ctx_user_externalID_def and_then_simps findFirstOrThrow_def mutation_simps)
  show "taskRouter_delete ctx \<lparr>externalID = t_externalID t\<rparr> st = (Inl (refusal ctx), st)"
    using nf by (cases "user ctx")
      (simp_all add: taskRouter_delete_def protectedProcedure_def refusal_def task_delete_def
          ctx_user_externalID_def and_then_simps findFirstOrThrow_def mutation_simps)
qed

lemma board_create_success:
  assumes "boardRouter_create uuid ctx inp st = (Inr (b, u), st')"
  shows "\<exists>a. user ctx = Some a \<and> b_createdBy b = u_externalID a \<and> b_externalID b = uuid
           \<and> uuid \<notin> set (map b_externalID (boards st)) \<and> st' = st\<lparr>boards := boards st @ [b]\<rparr>"
  using assms
  by (cases "user ctx")
     (auto simp: boardRouter_create_def protectedProcedure_def board_create_def create_board_def
        ctx_user_externalID_def and_then_def mutation_def Let_def
        split: sum.splits if_splits)

lemma created_board_isolated:
  assumes d: "distinct (map b_externalID (boards st))"
    and a: "user ctxA = Some A" "foreign ctx (u_externalID A)"
      "boardRouter_create uuid ctxA inp st = (Inr (b, u), st')"
  shows "boardRouter_get ctx \<lparr>externalID = b_externalID b\<rparr> (run cs st')
           = (Inl (refusal ctx), run cs st')"
proof -
  obtain c: "b_createdBy b = u_externalID A" "b_externalID b = uuid"
      "uuid \<notin> set (map b_externalID (boards st))" "st' = st\<lparr>boards := boards st @ [b]\<rparr>"
    using board_create_success [OF a(3)] a(1) by auto
  have "distinct (map b_externalID (boards st'))" and "b \<in> set (boards st')"
    using c d by auto
  then have d': "distinct (map b_externalID (boards (run cs st')))"
    and "\<exists>b'\<in>set (boards (run cs st')). b_externalID b' = b_externalID b \<and> b_createdBy b' = b_createdBy b"
    by (auto intro: run_distinct run_board_stays)
  then obtain b' where b': "b' \<in> set (boards (run cs st'))" "b_externalID b' = b_externalID b"
    "b_createdBy b' = b_createdBy b" by blast
  have "foreign ctx (b_createdBy b')" using a(2) c(1) b'(3) by simp
  from board_foreign(1) [OF d' b'(1) this] show ?thesis using b'(2) by simp
qed

text \<open>
  C1. Ownership isolation. With identifiers unique in each table, \<open>get\<close>, \<open>update\<close> and
  \<open>delete\<close> on a board, stage or task whose owner is not the caller fail with an error
  and leave the store as it was; and once a user has created a board, \<open>board.get\<close> with
  its identifier fails for every other caller, after any history of further calls.
\<close>

theorem ownership_isolation:
  assumes "distinct (map b_externalID (boards st))"
    and "distinct (map s_externalID (stages st))"
    and "distinct (map t_externalID (tasks st))"
  shows
   "(\<forall>b\<in>set (boards st). foreign ctx (b_createdBy b) \<longrightarrow>
       boardRouter_get ctx \<lparr>externalID = b_externalID b\<rparr> st = (Inl (refusal ctx), st)
     \<and> (\<forall>inp. bu_externalID inp = b_externalID b \<longrightarrow>
            boardRouter_update ctx inp st = (Inl (refusal ctx), st))
     \<and> boardRouter_delete ctx \<lparr>externalID = b_externalID b\<rparr> st = (Inl (refusal ctx), st))
  \<and> (\<forall>s\<in>set (stages st). foreign ctx (s_createdBy s) \<longrightarrow>
       stageRouter_get ctx \<lparr>externalID = s_externalID s\<rparr> st = (Inl (refusal ctx), st)
     \<and> (\<forall>inp. su_externalID inp = s_externalID s \<longrightarrow>
            stageRouter_update ctx inp st = (Inl (refusal ctx), st))
     \<and> stageRouter_delete ctx \<lparr>externalID = s_externalID s\<rparr> st = (Inl (refusal ctx), st))
  \<and> (\<forall>t\<in>set (tasks st). foreign ctx (t_createdBy t) \<longrightarrow>
       taskRouter_get ctx \<lparr>externalID = t_externalID t\<rparr> st = (Inl (refusal ctx), st)
     \<and> (\<forall>inp. tu_externalID inp = t_externalID t \<longrightarrow>
            taskRouter_update ctx inp st = (Inl (refusal ctx), st))
     \<and> taskRouter_delete ctx \<lparr>externalID = t_externalID t\<rparr> st = (Inl (refusal ctx), st))
  \<and> (\<forall>uuid ctxA A inp b u st' cs.
        user ctxA = Some A \<and> foreign ctx (u_externalID A)
        \<and> boardRouter_create uuid ctxA inp st = (Inr (b, u), st') \<longrightarrow>
        boardRouter_get ctx \<lparr>externalID = b_externalID b\<rparr> (run cs st')
          = (Inl (refusal ctx), run cs st'))"
proof (intro conjI ballI impI allI)
  fix uuid ctxA A inp b u st' cs
  assume "user ctxA = Some A \<and> foreign ctx (u_externalID A)
        \<and> boardRouter_create uuid ctxA inp st = (Inr (b, u), st')"
  then show "boardRouter_get ctx \<lparr>externalID = b_externalID b\<rparr> (run cs st')
          = (Inl (refusal ctx), run cs st')"
    using created_board_isolated [OF assms(1)] by blast
qed (simp_all add: assms board_foreign stage_foreign task_foreign)

theorem ownership_isolation_witness:
  "distinct (map b_externalID (boards sample_store))
   \<and> distinct (map s_externalID (stages sample_store))
   \<and> distinct (map t_externalID (tasks sample_store))
   \<and> sprint1 \<in> set (boards sample_store) \<and> foreign \<lparr>user = Some bob\<rparr> (b_createdBy sprint1)
   \<and> boardRouter_get \<lparr>user = Some bob\<rparr> \<lparr>externalID = ''b-1''\<rparr> sample_store
       = (Inl (TRPCError INTERNAL_SERVER_ERROR), sample_store)
   \<and> boardRouter_update \<lparr>user = Some bob\<rparr>
        \<lparr>bu_externalID = ''b-1'', bu_title = Some ''Mine'', bu_description = None\<rparr> sample_store
       = (Inl (TRPCError INTERNAL_SERVER_ERROR), sample_store)
   \<and> boardRouter_delete \<lparr>user = Some bob\<rparr> \<lparr>externalID = ''b-1''\<rparr> sample_store
       = (Inl (TRPCError INTERNAL_SERVER_ERROR), sample_store)
   \<and> todo \<in> set (stages sample_store) \<and> foreign \<lparr>user = Some bob\<rparr> (s_createdBy todo)
   \<and> stageRouter_get \<lparr>user = Some bob\<rparr> \<lparr>externalID = ''s-1''\<rparr> sample_store
       = (Inl (TRPCError INTERNAL_SERVER_ERROR), sample_store)
   \<and> write_spec \<in> set (tasks sample_store) \<and> foreign \<lparr>user = Some bob\<rparr> (t_createdBy write_spec)
   \<and> taskRouter_delete \<lparr>user = Some bob\<rparr> \<lparr>externalID = ''t-1''\<rparr> sample_store
       = (Inl (TRPCError INTERNAL_SERVER_ERROR), sample_store)
   \<and> boardRouter_create ''b-3'' \<lparr>user = Some alice\<rparr>
        \<lparr>bc_title = ''Sprint 1'', bc_description = None\<rparr> sample_store
       = (Inr (sprint1\<lparr>b_externalID := ''b-3''\<rparr>, alice),
          sample_store\<lparr>boards := [sprint1, backlog, sprint1\<lparr>b_externalID := ''b-3''\<rparr>]\<rparr>)
   \<and> boardRouter_get \<lparr>user = Some bob\<rparr> \<lparr>externalID = ''b-3''\<rparr>
        (run [(sample_env, \<lparr>user = Some alice\<rparr>, BoardDelete \<lparr>externalID = ''b-1''\<rparr>)]
           (sample_store\<lparr>boards := [sprint1, backlog, sprint1\<lparr>b_externalID := ''b-3''\<rparr>]\<rparr>))
       = (Inl (TRPCError INTERNAL_SERVER_ERROR),
          run [(sample_env, \<lparr>user = Some alice\<rparr>, BoardDelete \<lparr>externalID = ''b-1''\<rparr>)]
            (sample_store\<lparr>boards := [sprint1, backlog, sprint1\<lparr>b_externalID := ''b-3''\<rparr>]\<rparr>))"
proof -
  have d: "distinct (map b_externalID (boards sample_store))"
    "distinct (map s_externalID (stages sample_store))"
    "distinct (map t_externalID (tasks sample_store))"
    by (simp_all add: sample_defs)
  have m: "sprint1 \<in> set (boards sample_store)" "todo \<in> set (stages sample_store)"
    "write_spec \<in> set (tasks sample_store)"
    by (simp_all add: sample_store_def)
  have f: "foreign \<lparr>user = Some bob\<rparr> (b_createdBy sprint1)"
    "foreign \<lparr>user = Some bob\<rparr> (s_createdBy todo)"
    "foreign \<lparr>user = Some bob\<rparr> (t_createdBy write_spec)"
    "foreign \<lparr>user = Some bob\<rparr> (u_externalID alice)"
    by (simp_all add: foreign_def sample_defs)
  have k: "b_externalID sprint1 = ''b-1''" "s_externalID todo = ''s-1''"
    "t_externalID write_spec = ''t-1''" "b_externalID (sprint1\<lparr>b_externalID := ''b-3''\<rparr>) = ''b-3''"
    "refusal \<lparr>user = Some bob\<rparr> = TRPCError INTERNAL_SERVER_ERROR"
    by (simp_all add: sample_defs refusal_def)
  have c: "boardRouter_create ''b-3'' \<lparr>user = Some alice\<rparr>
        \<lparr>bc_title = ''Sprint 1'', bc_description = None\<rparr> sample_store
       = (Inr (sprint1\<lparr>b_externalID := ''b-3''\<rparr>, alice),
          sample_store\<lparr>boards := [sprint1, backlog, sprint1\<lparr>b_externalID := ''b-3''\<rparr>]\<rparr>)"
    by (simp add: boardRouter_create_def protectedProcedure_def board_create_def create_board_def
        ctx_user_externalID_def the_user_def findFirstOrThrow_def or_string_def
        and_then_simps mutation_simps sample_defs Let_def)
  note iso = ownership_isolation [OF d, of "\<lparr>user = Some bob\<rparr>"]
  from iso m(1) f(1) have b: "boardRouter_get \<lparr>user = Some bob\<rparr> \<lparr>externalID = b_externalID sprint1\<rparr>
        sample_store = (Inl (refusal \<lparr>user = Some bob\<rparr>), sample_store)"
    "boardRouter_update \<lparr>user = Some bob\<rparr>
        \<lparr>bu_externalID = ''b-1'', bu_title = Some ''Mine'', bu_description = None\<rparr> sample_store
       = (Inl (refusal \<lparr>user = Some bob\<rparr>), sample_store)"
    "boardRouter_delete \<lparr>user = Some bob\<rparr> \<lparr>externalID = b_externalID sprint1\<rparr> sample_store
       = (Inl (refusal \<lparr>user = Some bob\<rparr>), sample_store)"
    using k(1) by auto
  from iso m(2) f(2) have s: "stageRouter_get \<lparr>user = Some bob\<rparr> \<lparr>externalID = s_externalID todo\<rparr>
        sample_store = (Inl (refusal \<lparr>user = Some bob\<rparr>), sample_store)"
    by blast
  from iso m(3) f(3) have t: "taskRouter_delete \<lparr>user = Some bob\<rparr>
        \<lparr>externalID = t_externalID write_spec\<rparr> sample_store
       = (Inl (refusal \<lparr>user = Some bob\<rparr>), sample_store)"
    by blast
  from iso c f(4) have g: "boardRouter_get \<lparr>user = Some bob\<rparr>
        \<lparr>externalID = b_externalID (sprint1\<lparr>b_externalID := ''b-3''\<rparr>)\<rparr>
        (run [(sample_env, \<lparr>user = Some alice\<rparr>, BoardDelete \<lparr>externalID = ''b-1''\<rparr>)]
           (sample_store\<lparr>boards := [sprint1, backlog, sprint1\<lparr>b_externalID := ''b-3''\<rparr>]\<rparr>))
       = (Inl (refusal \<lparr>user = Some bob\<rparr>),
          run [(sample_env, \<lparr>user = Some alice\<rparr>, BoardDelete \<lparr>externalID = ''b-1''\<rparr>)]
            (sample_store\<lparr>boards := [sprint1, backlog, sprint1\<lparr>b_externalID := ''b-3''\<rparr>]\<rparr>))"
    by (metis Context.select_convs(1))
  show ?thesis
    using d m f(1-3) c b s t g unfolding k by simp
qed

section \<open>Partial update\<close>

lemma update_row_rel:
  "update_row P f xs = Some (y, ys) \<Longrightarrow> list_all2 (\<lambda>x x'. x' = x \<or> (P x \<and> x' = f x)) xs ys"
proof (induction xs arbitrary: y ys)
  case Nil
  then show ?case by simp
next
  case (Cons x xs)
  show ?case
  proof (cases "P x")
    case True
    with Cons.prems show ?thesis by (auto simp: list_all2_same)
  next
    case False
    with Cons.prems obtain zs where "update_row P f xs = Some (y, zs)" "ys = x # zs"
      by (auto split: option.splits)
    with Cons.IH show ?thesis by simp
  qed
qed

lemma update_row_find:
  "update_row P f xs = Some (y, ys) \<Longrightarrow> \<exists>x. find P xs = Some x \<and> y = f x"
  by (induction xs arbitrary: y ys) (auto split: option.splits if_splits)

lemma update_row_find_after:
  "update_row P f xs = Some (y, ys) \<Longrightarrow> P y \<Longrightarrow> find P ys = Some y"
  by (induction xs arbitrary: y ys) (auto split: option.splits if_splits)

lemma patchedI:
  assumes "update_row (\<lambda>x. key x = eid) f xs = Some (y, ys)"
    and "\<And>x. x \<in> set xs \<Longrightarrow> key x = eid \<Longrightarrow> R x (f x)"
  shows "patched key eid R xs ys"
  unfolding patched_def
  by (rule list.rel_mono_strong [OF update_row_rel [OF assms(1)]]) (auto simp: assms(2))

lemma patched_refl: "patched key eid R xs xs"
  by (simp add: patched_def list_all2_same)

lemma board_update_frame:
  "users (snd (boardRouter_update ctx inp st)) = users st
   \<and> stages (snd (boardRouter_update ctx inp st)) = stages st
   \<and> tasks (snd (boardRouter_update ctx inp st)) = tasks st
   \<and> patched b_externalID (bu_externalID inp) (board_kept inp) (boards st)
        (boards (snd (boardRouter_update ctx inp st)))"
  by (cases "user ctx")
     (auto simp: boardRouter_update_def protectedProcedure_def board_update_def
        ctx_user_externalID_def and_then_def mutation_def update_def patched_refl board_kept_def
        intro!: patchedI split: sum.splits option.splits)

lemma stage_update_frame:
  "users (snd (stageRouter_update ctx inp st)) = users st
   \<and> boards (snd (stageRouter_update ctx inp st)) = boards st
   \<and> tasks (snd (stageRouter_update ctx inp st)) = tasks st
   \<and> patched s_externalID (su_externalID inp) stage_kept (stages st)
        (stages (snd (stageRouter_update ctx inp st)))"
  by (cases "user ctx")
     (auto simp: stageRouter_update_def protectedProcedure_def stage_update_def
        ctx_user_externalID_def and_then_def mutation_def update_def patched_refl stage_kept_def
        intro!: patchedI split: sum.splits option.splits)


lemma findFirstOrThrow_Inr: "findFirstOrThrow P xs = Inr x \<Longrightarrow> x \<in> set xs \<and> P x"
  by (auto simp: findFirstOrThrow_def find_Some_iff split: option.splits)

lemma the_stage_Inr: "the_stage st sid = Inr s \<Longrightarrow> s \<in> set (stages st) \<and> s_externalID s = sid"
  by (auto simp: the_stage_def dest: findFirstOrThrow_Inr)

lemma task_find_Inr:
  assumes "task_find st eid uid = Inr (t, u, s, b)"
  shows "t \<in> set (tasks st)" "t_externalID t = eid" "\<not> t_deleted t" "t_createdBy t = uid"
    "s_externalID s = t_stage t"
  using assms
  by (auto simp: task_find_def task_createdBy_stage_board_def and_then_def
      dest!: findFirstOrThrow_Inr the_stage_Inr split: sum.splits)

lemma task_update_cases:
  obtains (fail) e where "taskRouter_update ctx inp st = (Inl e, st)"
  | (ok) u task cu stage board s' t' ts where
      "user ctx = Some u"
      "task_find st (tu_externalID inp) (u_externalID u) = Inr (task, cu, stage, board)"
      "the_stage st (or_string (tu_stageExternalID inp) (s_externalID stage)) = Inr s'"
      "update_row (\<lambda>t. t_externalID t = tu_externalID inp)
         (\<lambda>t. t\<lparr>t_title := or_string (tu_title inp) (t_title task),
                t_description := or_nullable (tu_description inp) (t_description task),
                t_dueDate := or_date (tu_dueDate inp) (t_dueDate task),
                t_priority := or_number (tu_priority inp) (t_priority task),
                t_stage := s_externalID s'\<rparr>) (tasks st) = Some (t', ts)"
      "taskRouter_update ctx inp st = (Inr (task, cu, stage, board), st\<lparr>tasks := ts\<rparr>)"
proof (cases "user ctx")
  case None
  then show ?thesis
    by (intro fail [of "TRPCError UNAUTHORIZED"]) (simp add: taskRouter_update_def protectedProcedure_def)
next
  case (Some u)
  show ?thesis
  proof (cases "task_find st (tu_externalID inp) (u_externalID u)")
    case (Inl e)
    with Some show ?thesis
      by (intro fail [of "TRPCError INTERNAL_SERVER_ERROR"])
         (simp add: taskRouter_update_def protectedProcedure_def task_update_def
            ctx_user_externalID_def and_then_simps mutation_simps)
  next
    case (Inr r)
    obtain task cu stage board where r: "r = (task, cu, stage, board)" by (cases r) auto
    show ?thesis
    proof (cases "the_stage st (or_string (tu_stageExternalID inp) (s_externalID stage))")
      case (Inl e)
      with Some Inr r show ?thesis
        by (intro fail [of "TRPCError INTERNAL_SERVER_ERROR"])
           (simp add: taskRouter_update_def protectedProcedure_def task_update_def
              ctx_user_externalID_def and_then_simps mutation_simps)
    next
      case s': (Inr s')
      let ?f = "\<lambda>t. t\<lparr>t_title := or_string (tu_title inp) (t_title task),
                t_description := or_nullable (tu_description inp) (t_description task),
                t_dueDate := or_date (tu_dueDate inp) (t_dueDate task),
                t_priority := or_number (tu_priority inp) (t_priority task),
                t_stage := s_externalID s'\<rparr>"
      show ?thesis
      proof (cases "update_row (\<lambda>t. t_externalID t = tu_externalID inp) ?f (tasks st)")
        case None
        with Some Inr r s' show ?thesis
          by (intro fail [of "TRPCError INTERNAL_SERVER_ERROR"])
             (simp add: taskRouter_update_def protectedProcedure_def task_update_def
                ctx_user_externalID_def and_then_simps mutation_simps update_def)
      next
        case (Some p)
        obtain t' ts where p: "p = (t', ts)" by (cases p)
        have "taskRouter_update ctx inp st = (Inr (task, cu, stage, board), st\<lparr>tasks := ts\<rparr>)"
          using \<open>user ctx = Some u\<close> Inr r s' Some p
          by (simp add: taskRouter_update_def protectedProcedure_def task_update_def
                ctx_user_externalID_def and_then_simps mutation_simps update_def)
        then show ?thesis
          using ok [OF \<open>user ctx = Some u\<close> Inr [unfolded r] s' Some [unfolded p]] by simp
      qed
    qed
  qed
qed

lemma or_None_simps:
  "or_string None b = b" "or_nullable None c = c" "or_date None d = d" "or_number None n = n"
  by (simp_all add: or_string_def or_nullable_def or_date_def or_number_def)

text \<open>In \<open>task.update\<close> a falsy value in the input counts as no value: \<open>0 || p\<close> is \<open>p\<close>
  and \<open>"" || s\<close> is \<open>s\<close>.\<close>

lemma or_falsy_simps:
  "or_string (Some []) b = b" "or_nullable (Some []) c = c" "or_number (Some 0) n = n"
  by (simp_all add: or_string_def or_nullable_def or_number_def)

lemma task_update_frame:
  assumes d: "distinct (map t_externalID (tasks st))"
  shows "users (snd (taskRouter_update ctx inp st)) = users st
   \<and> boards (snd (taskRouter_update ctx inp st)) = boards st
   \<and> stages (snd (taskRouter_update ctx inp st)) = stages st
   \<and> patched t_externalID (tu_externalID inp) (task_kept inp) (tasks st)
        (tasks (snd (taskRouter_update ctx inp st)))"
proof (cases rule: task_update_cases [of ctx inp st])
  case (fail e)
  then show ?thesis by (simp add: patched_refl)
next
  case (ok u task cu stage board s' t' ts)
  note tf = task_find_Inr [OF ok(2)]
  have same: "x = task" if "x \<in> set (tasks st)" "t_externalID x = tu_externalID inp" for x
  proof -
    have "inj_on t_externalID (set (tasks st))" using d by (simp add: distinct_map)
    then show ?thesis using that tf(1,2) by (simp add: inj_on_def)
  qed
  have st: "tu_stageExternalID inp = None \<Longrightarrow> s_externalID s' = t_stage task"
    using the_stage_Inr [OF ok(3)] tf(5) by (simp add: or_None_simps)
  have "patched t_externalID (tu_externalID inp) (task_kept inp) (tasks st) ts"
  proof (rule patchedI [OF ok(4)])
    fix x assume "x \<in> set (tasks st)" "t_externalID x = tu_externalID inp"
    then have "x = task" by (rule same)
    then show "task_kept inp x (x\<lparr>t_title := or_string (tu_title inp) (t_title task),
                t_description := or_nullable (tu_description inp) (t_description task),
                t_dueDate := or_date (tu_dueDate inp) (t_dueDate task),
                t_priority := or_number (tu_priority inp) (t_priority task),
                t_stage := s_externalID s'\<rparr>)"
      using st by (simp add: task_kept_def or_None_simps)
  qed
  then show ?thesis by (simp add: ok(5))
qed


text \<open>
  C4. Partial update. \<open>board.update\<close>, \<open>stage.update\<close> and \<open>task.update\<close> touch no other
  table and no other row; in the row they patch, the identifier, owner, parent and
  deletion flag stay, and so does every field for which the input holds no value
  (\<open>undefined\<close> or \<open>null\<close>), whatever the stored value is: a priority \<open>0\<close> or an empty
  description stays as it is. For tasks the identifiers are taken to be unique, as the
  patch is computed from the row that was looked up.
\<close>

theorem partial_update_keeps_unspecified:
  "(users (snd (boardRouter_update ctx bi st)) = users st
    \<and> stages (snd (boardRouter_update ctx bi st)) = stages st
    \<and> tasks (snd (boardRouter_update ctx bi st)) = tasks st
    \<and> patched b_externalID (bu_externalID bi) (board_kept bi) (boards st)
         (boards (snd (boardRouter_update ctx bi st))))
   \<and> (users (snd (stageRouter_update ctx si st)) = users st
    \<and> boards (snd (stageRouter_update ctx si st)) = boards st
    \<and> tasks (snd (stageRouter_update ctx si st)) = tasks st
    \<and> patched s_externalID (su_externalID si) stage_kept (stages st)
         (stages (snd (stageRouter_update ctx si st))))
   \<and> (distinct (map t_externalID (tasks st)) \<longrightarrow>
      users (snd (taskRouter_update ctx ti st)) = users st
    \<and> boards (snd (taskRouter_update ctx ti st)) = boards st
    \<and> stages (snd (taskRouter_update ctx ti st)) = stages st
    \<and> patched t_externalID (tu_externalID ti) (task_kept ti) (tasks st)
         (tasks (snd (taskRouter_update ctx ti st))))"
  using board_update_frame [of ctx bi st] stage_update_frame [of ctx si st]
    task_update_frame [of st ctx ti]
  by blast

lemmas task_update_defs =
  taskRouter_update_def protectedProcedure_def task_update_def task_find_def
  task_createdBy_stage_board_def the_user_def the_stage_def the_board_def
  findFirstOrThrow_def ctx_user_externalID_def update_def
  or_string_def or_nullable_def or_date_def or_number_def

theorem partial_update_keeps_unspecified_witness:
  "distinct (map t_externalID (tasks sample_store))
   \<and> taskRouter_update \<lparr>user = Some alice\<rparr>
        \<lparr>tu_externalID = ''t-1'', tu_title = Some ''Rewrite'', tu_description = None,
         tu_dueDate = None, tu_priority = None, tu_stageExternalID = None\<rparr> sample_store
       = (Inr (write_spec, alice, todo, sprint1),
          sample_store\<lparr>tasks := [write_spec\<lparr>t_title := ''Rewrite''\<rparr>]\<rparr>)
   \<and> t_priority (write_spec\<lparr>t_title := ''Rewrite''\<rparr>) = 0
   \<and> t_description (write_spec\<lparr>t_title := ''Rewrite''\<rparr>) = Some []
   \<and> patched t_externalID ''t-1''
        (task_kept \<lparr>tu_externalID = ''t-1'', tu_title = Some ''Rewrite'', tu_description = None,
                     tu_dueDate = None, tu_priority = None, tu_stageExternalID = None\<rparr>)
        (tasks sample_store) [write_spec\<lparr>t_title := ''Rewrite''\<rparr>]"
  using partial_update_keeps_unspecified [of "\<lparr>user = Some alice\<rparr>" _ sample_store _
      "\<lparr>tu_externalID = ''t-1'', tu_title = Some ''Rewrite'', tu_description = None,
         tu_dueDate = None, tu_priority = None, tu_stageExternalID = None\<rparr>"]
  by (simp add: sample_defs task_update_defs and_then_simps mutation_simps)

section \<open>What task.update returns\<close>

text \<open>
  C9. A successful \<open>task.update\<close> returns the row as it was fetched before the write:
  its output is the output of \<open>task.get\<close> on the store before the call, while the row now
  stored holds the values computed from the input.
\<close>

theorem task_update_returns_prior:
  assumes "taskRouter_update ctx inp st = (Inr out, st')"
  shows "taskRouter_get ctx \<lparr>externalID = tu_externalID inp\<rparr> st = (Inr out, st)
    \<and> (\<exists>t'. find (\<lambda>t. t_externalID t = tu_externalID inp) (tasks st') = Some t'
          \<and> t_title t' = or_string (tu_title inp) (t_title (fst out))
          \<and> t_description t' = or_nullable (tu_description inp) (t_description (fst out))
          \<and> t_dueDate t' = or_date (tu_dueDate inp) (t_dueDate (fst out))
          \<and> t_priority t' = or_number (tu_priority inp) (t_priority (fst out)))"
proof (cases rule: task_update_cases [of ctx inp st])
  case (fail e)
  with assms show ?thesis by simp
next
  case (ok u task cu stage board s' t' ts)
  from ok(5) assms have out: "out = (task, cu, stage, board)" and st': "st' = st\<lparr>tasks := ts\<rparr>"
    by simp_all
  have get: "taskRouter_get ctx \<lparr>externalID = tu_externalID inp\<rparr> st = (Inr out, st)"
    using ok(1,2) out
    by (simp add: taskRouter_get_def protectedProcedure_def task_get_def ctx_user_externalID_def
        and_then_simps query_simps)
  obtain x where x: "t' = x\<lparr>t_title := or_string (tu_title inp) (t_title task),
                t_description := or_nullable (tu_description inp) (t_description task),
                t_dueDate := or_date (tu_dueDate inp) (t_dueDate task),
                t_priority := or_number (tu_priority inp) (t_priority task),
                t_stage := s_externalID s'\<rparr>" "find (\<lambda>t. t_externalID t = tu_externalID inp) (tasks st) = Some x"
    using update_row_find [OF ok(4)] by blast
  then have "t_externalID t' = tu_externalID inp" by (auto simp: find_Some_iff)
  then have "find (\<lambda>t. t_externalID t = tu_externalID inp) ts = Some t'"
    using update_row_find_after [OF ok(4)] by simp
  then show ?thesis using get x(1) by (auto simp: st' out)
qed

theorem task_update_returns_prior_witness:
  "taskRouter_update \<lparr>user = Some alice\<rparr>
        \<lparr>tu_externalID = ''t-1'', tu_title = Some ''Rewrite'', tu_description = None,
         tu_dueDate = None, tu_priority = Some 2, tu_stageExternalID = None\<rparr> sample_store
       = (Inr (write_spec, alice, todo, sprint1),
          sample_store\<lparr>tasks := [write_spec\<lparr>t_title := ''Rewrite'', t_priority := 2\<rparr>]\<rparr>)
   \<and> taskRouter_get \<lparr>user = Some alice\<rparr> \<lparr>externalID = ''t-1''\<rparr> sample_store
       = (Inr (write_spec, alice, todo, sprint1), sample_store)
   \<and> t_title write_spec = ''Write'' \<and> t_priority write_spec = 0"
proof -
  have u: "taskRouter_update \<lparr>user = Some alice\<rparr>
        \<lparr>tu_externalID = ''t-1'', tu_title = Some ''Rewrite'', tu_description = None,
         tu_dueDate = None, tu_priority = Some 2, tu_stageExternalID = None\<rparr> sample_store
       = (Inr (write_spec, alice, todo, sprint1),
          sample_store\<lparr>tasks := [write_spec\<lparr>t_title := ''Rewrite'', t_priority := 2\<rparr>]\<rparr>)"
    by (simp add: sample_defs task_update_defs and_then_simps mutation_simps)
  from task_update_returns_prior [OF u] u show ?thesis
    by (simp add: write_spec_def)
qed

section \<open>Login and the context\<close>

lemma js_split_nonempty: "js_split c xs \<noteq> []"
  by (induction xs) (auto split: list.splits)

lemma js_split_word: "c \<notin> set xs \<Longrightarrow> js_split c xs = [xs]"
  by (induction xs) auto

lemma js_split_first: "c \<notin> set xs \<Longrightarrow> js_split c (xs @ c # ys) = xs # js_split c ys"
  by (induction xs) auto

lemma bearer_token_Bearer:
  assumes "CHR '' '' \<notin> set tok"
  shows "bearer_token (Some (''Bearer '' @ tok)) = Some tok"
proof -
  have "js_split (CHR '' '') (''Bearer'' @ CHR '' '' # tok) = ''Bearer'' # js_split (CHR '' '') tok"
    by (rule js_split_first) simp
  then show ?thesis using assms by (simp add: bearer_token_def js_split_word)
qed

lemma find_unique_key:
  assumes "distinct (map key xs)" and "x \<in> set xs"
  shows "find (\<lambda>y. key y = key x) xs = Some x"
proof -
  have "inj_on key (set xs)" using assms(1) by (simp add: distinct_map)
  then have u: "\<And>y. y \<in> set xs \<Longrightarrow> key y = key x \<Longrightarrow> y = x"
    using assms(2) by (simp add: inj_on_def)
  obtain y where y: "find (\<lambda>y. key y = key x) xs = Some y"
    using assms(2) by (cases "find (\<lambda>y. key y = key x) xs") (auto simp: find_None_iff)
  then have "y \<in> set xs" "key y = key x"
    by (auto simp: find_Some_iff)
  with u y show ?thesis by simp
qed

text \<open>
  C7. Login round trip. For an existing username, \<open>auth.login\<close> with a password that
  \<open>bcrypt.compare\<close> rejects fails with an error; with a password it accepts, \<open>login\<close>
  returns the token signed for the user's \<open>externalID\<close> with a lifetime of one day
  (86400 seconds), and \<open>createContext\<close>, given \<open>Bearer <token>\<close> at any time of that day,
  resolves to that user's row. Of the signing library the statement takes what it
  promises for this token: a non-empty word without a space, which \<open>verify\<close> decodes to the
  signed payload under the same secret until it expires. User identifiers are unique.
\<close>

theorem login_round_trip:
  assumes found: "findFirst (\<lambda>u. u_username u = li_username inp) (users st) = Some u"
  shows
   "(\<not> compare (li_password inp) (u_password u) \<longrightarrow>
       authRouter_login compare sign secret t0 ctx inp st
         = (Inl (TRPCError INTERNAL_SERVER_ERROR), st))
  \<and> (compare (li_password inp) (u_password u) \<longrightarrow>
       authRouter_login compare sign secret t0 ctx inp st
         = (Inr (sign (JwtObject (Some (u_externalID u))) secret 86400 t0), st)
     \<and> (\<forall>tok. tok = sign (JwtObject (Some (u_externalID u))) secret 86400 t0
            \<and> distinct (map u_externalID (users st))
            \<and> tok \<noteq> [] \<and> CHR '' '' \<notin> set tok
            \<and> (\<forall>t. t0 \<le> t \<and> t < t0 + 86400 \<longrightarrow>
                   verify tok secret t = Inr (JwtObject (Some (u_externalID u)))) \<longrightarrow>
          (\<forall>t. t0 \<le> t \<and> t < t0 + 86400 \<longrightarrow>
               createContext verify secret t (Some (''Bearer '' @ tok)) st
                 = Inr \<lparr>user = Some u\<rparr>)))"
proof (intro conjI impI allI)
  assume "\<not> compare (li_password inp) (u_password u)"
  then show "authRouter_login compare sign secret t0 ctx inp st
         = (Inl (TRPCError INTERNAL_SERVER_ERROR), st)"
    using found by (simp add: authRouter_login_def publicProcedure_def auth_login_def query_simps)
next
  assume "compare (li_password inp) (u_password u)"
  then show "authRouter_login compare sign secret t0 ctx inp st
         = (Inr (sign (JwtObject (Some (u_externalID u))) secret 86400 t0), st)"
    using found by (simp add: authRouter_login_def publicProcedure_def auth_login_def query_simps)
next
  fix tok t
  assume a: "tok = sign (JwtObject (Some (u_externalID u))) secret 86400 t0
            \<and> distinct (map u_externalID (users st))
            \<and> tok \<noteq> [] \<and> CHR '' '' \<notin> set tok
            \<and> (\<forall>t. t0 \<le> t \<and> t < t0 + 86400 \<longrightarrow>
                   verify tok secret t = Inr (JwtObject (Some (u_externalID u))))"
    and t: "t0 \<le> t \<and> t < t0 + 86400"
  from a have ne: "tok \<noteq> []" and sp: "CHR '' '' \<notin> set tok"
    and d: "distinct (map u_externalID (users st))" by blast+
  have "u \<in> set (users st)" using found by (auto simp: findFirst_def find_Some_iff)
  then have fu: "find (\<lambda>y. u_externalID y = u_externalID u) (users st) = Some u"
    using d by (rule find_unique_key [rotated])
  have v: "verify tok secret t = Inr (JwtObject (Some (u_externalID u)))"
    using a t by blast
  have bt: "bearer_token (Some (''Bearer '' @ tok)) = Some tok"
    using sp by (rule bearer_token_Bearer)
  show "createContext verify secret t (Some (''Bearer '' @ tok)) st = Inr \<lparr>user = Some u\<rparr>"
    unfolding createContext_def bt
    using ne v fu by (simp add: and_then_simps findUnique_user_def findFirst_def)
qed

theorem login_round_trip_witness:
  "findFirst (\<lambda>u. u_username u = ''alice'') (users sample_store) = Some alice
   \<and> \<not> sample_compare ''rabbit'' (u_password alice)
   \<and> authRouter_login sample_compare sample_sign ''s3cret'' 0 \<lparr>user = None\<rparr>
        \<lparr>li_username = ''alice'', li_password = ''rabbit''\<rparr> sample_store
       = (Inl (TRPCError INTERNAL_SERVER_ERROR), sample_store)
   \<and> sample_compare ''wonderland'' (u_password alice)
   \<and> authRouter_login sample_compare sample_sign ''s3cret'' 0 \<lparr>user = None\<rparr>
        \<lparr>li_username = ''alice'', li_password = ''wonderland''\<rparr> sample_store
       = (Inr ''u-alice.s3cret'', sample_store)
   \<and> distinct (map u_externalID (users sample_store))
   \<and> sample_verify ''u-alice.s3cret'' ''s3cret'' 3600 = Inr (JwtObject (Some ''u-alice''))
   \<and> createContext sample_verify ''s3cret'' 3600 (Some ''Bearer u-alice.s3cret'') sample_store
       = Inr \<lparr>user = Some alice\<rparr>"
proof -
  have f: "findFirst (\<lambda>u. u_username u = ''alice'') (users sample_store) = Some alice"
    by (simp add: findFirst_def sample_defs)
  have lib: "\<forall>t. 0 \<le> t \<and> t < 0 + 86400 \<longrightarrow>
          sample_verify ''u-alice.s3cret'' ''s3cret'' t = Inr (JwtObject (Some ''u-alice''))"
    by (simp add: sample_verify_def)
  have tok: "sample_sign (JwtObject (Some (u_externalID alice))) ''s3cret'' 86400 0 = ''u-alice.s3cret''"
    by (simp add: sample_sign_def alice_def)
  have d: "distinct (map u_externalID (users sample_store))"
    by (simp add: sample_defs)
  have pw: "\<not> sample_compare ''rabbit'' (u_password alice)" "sample_compare ''wonderland'' (u_password alice)"
    by (simp_all add: sample_compare_def alice_def)
  have bad: "authRouter_login sample_compare sample_sign ''s3cret'' 0 \<lparr>user = None\<rparr>
        \<lparr>li_username = ''alice'', li_password = ''rabbit''\<rparr> sample_store
       = (Inl (TRPCError INTERNAL_SERVER_ERROR), sample_store)"
    using login_round_trip [of "\<lparr>li_username = ''alice'', li_password = ''rabbit''\<rparr>" sample_store
        alice sample_compare sample_sign "''s3cret''" 0 "\<lparr>user = None\<rparr>"] f pw
    by simp
  have good: "authRouter_login sample_compare sample_sign ''s3cret'' 0 \<lparr>user = None\<rparr>
        \<lparr>li_username = ''alice'', li_password = ''wonderland''\<rparr> sample_store
       = (Inr ''u-alice.s3cret'', sample_store)
     \<and> createContext sample_verify ''s3cret'' 3600 (Some ''Bearer u-alice.s3cret'') sample_store
       = Inr \<lparr>user = Some alice\<rparr>"
    using login_round_trip [of "\<lparr>li_username = ''alice'', li_password = ''wonderland''\<rparr>"
        sample_store alice sample_compare sample_sign "''s3cret''" 0 "\<lparr>user = None\<rparr>" sample_verify]
      f pw d lib tok
    by (simp add: alice_def)
  have "sample_verify ''u-alice.s3cret'' ''s3cret'' 3600 = Inr (JwtObject (Some ''u-alice''))"
    using lib by simp
  then show ?thesis using f pw bad good d by blast
qed

text \<open>The revision of \<open>src/context.ts\<close> throws on every token that verifies to an object,
  which the tokens of \<open>login\<close> do.\<close>

lemma createContext_string_object:
  assumes "bearer_token authorization = Some token" and "token \<noteq> []"
    and "verify token secret clock = Inr (JwtObject e)"
  shows "createContext_string verify secret clock authorization st = Inl PrismaClientError"
  using assms by (simp add: createContext_string_def and_then_simps findUnique_user_def)

text \<open>
  C8, as stated, fails: a token that \<open>jwt.verify\<close> rejects as malformed or as expired
  makes \<open>createContext\<close> throw the library's error; it returns no context, in either
  revision.
\<close>

theorem createContext_raises_counterexample:
  "createContext sample_verify ''s3cret'' 60 (Some ''Bearer garbage'') sample_store
     = Inl JsonWebTokenError
   \<and> createContext sample_verify ''s3cret'' 90000 (Some ''Bearer u-alice.s3cret'') sample_store
     = Inl TokenExpiredError
   \<and> createContext_string sample_verify ''s3cret'' 60 (Some ''Bearer garbage'') sample_store
     = Inl JsonWebTokenError"
  by (simp add: createContext_def createContext_string_def bearer_token_def sample_verify_def
      and_then_simps)

text \<open>
  C8, amended. \<open>createContext\<close> returns the anonymous context when the request has no
  bearer token: no \<open>authorization\<close> header, or no non-empty second field in it. With a
  token that \<open>jwt.verify\<close> rejects it throws what \<open>verify\<close> throws. With a token that
  verifies to \<open>{ externalID }\<close> it returns the context of the user row with that identifier,
  anonymous if there is none.
\<close>

theorem createContext_outcomes:
  "((bearer_token authorization = None \<or> bearer_token authorization = Some []) \<longrightarrow>
      createContext verify secret clock authorization st = Inr \<lparr>user = None\<rparr>)
   \<and> (\<forall>token e. bearer_token authorization = Some token \<and> token \<noteq> []
         \<and> verify token secret clock = Inl e \<longrightarrow>
      createContext verify secret clock authorization st = Inl e)
   \<and> (\<forall>token eid. bearer_token authorization = Some token \<and> token \<noteq> []
         \<and> verify token secret clock = Inr (JwtObject (Some eid)) \<longrightarrow>
      createContext verify secret clock authorization st
        = Inr \<lparr>user = find (\<lambda>u. u_externalID u = eid) (users st)\<rparr>)"
  by (auto simp: createContext_def and_then_simps findUnique_user_def findFirst_def)

theorem createContext_outcomes_witness:
  "bearer_token None = None
   \<and> createContext sample_verify ''s3cret'' 60 None sample_store = Inr \<lparr>user = None\<rparr>
   \<and> bearer_token (Some ''Bearer'') = None
   \<and> createContext sample_verify ''s3cret'' 60 (Some ''Bearer'') sample_store = Inr \<lparr>user = None\<rparr>
   \<and> bearer_token (Some ''Bearer garbage'') = Some ''garbage''
   \<and> sample_verify ''garbage'' ''s3cret'' 60 = Inl JsonWebTokenError
   \<and> createContext sample_verify ''s3cret'' 60 (Some ''Bearer garbage'') sample_store
       = Inl JsonWebTokenError
   \<and> bearer_token (Some ''Bearer u-alice.s3cret'') = Some ''u-alice.s3cret''
   \<and> sample_verify ''u-alice.s3cret'' ''s3cret'' 60 = Inr (JwtObject (Some ''u-alice''))
   \<and> createContext sample_verify ''s3cret'' 60 (Some ''Bearer u-alice.s3cret'') fresh_store
       = Inr \<lparr>user = Some alice\<rparr>
   \<and> createContext sample_verify ''s3cret'' 60 (Some ''Bearer u-alice.s3cret'')
        (fresh_store\<lparr>users := [bob]\<rparr>)
       = Inr \<lparr>user = None\<rparr>"
proof -
  have b: "bearer_token None = None" "bearer_token (Some ''Bearer'') = None"
    "bearer_token (Some ''Bearer garbage'') = Some ''garbage''"
    "bearer_token (Some ''Bearer u-alice.s3cret'') = Some ''u-alice.s3cret''"
    by (simp_all add: bearer_token_def)
  have v: "sample_verify ''garbage'' ''s3cret'' 60 = Inl JsonWebTokenError"
    "sample_verify ''u-alice.s3cret'' ''s3cret'' 60 = Inr (JwtObject (Some ''u-alice''))"
    by (simp_all add: sample_verify_def)
  note o = createContext_outcomes [of _ sample_verify "''s3cret''" 60]
  have "createContext sample_verify ''s3cret'' 60 None sample_store = Inr \<lparr>user = None\<rparr>"
    using o [of None sample_store] b by simp
  moreover have "createContext sample_verify ''s3cret'' 60 (Some ''Bearer'') sample_store
      = Inr \<lparr>user = None\<rparr>"
    using o [of "Some ''Bearer''" sample_store] b by simp
  moreover have "createContext sample_verify ''s3cret'' 60 (Some ''Bearer garbage'') sample_store
       = Inl JsonWebTokenError"
    using o [of "Some ''Bearer garbage''" sample_store] b v by simp
  moreover have "createContext sample_verify ''s3cret'' 60 (Some ''Bearer u-alice.s3cret'') fresh_store
       = Inr \<lparr>user = Some alice\<rparr>"
    using o [of "Some ''Bearer u-alice.s3cret''" fresh_store] b v
    by (simp add: sample_defs)
  moreover have "createContext sample_verify ''s3cret'' 60 (Some ''Bearer u-alice.s3cret'')
        (fresh_store\<lparr>users := [bob]\<rparr>) = Inr \<lparr>user = None\<rparr>"
    using o [of "Some ''Bearer u-alice.s3cret''" "fresh_store\<lparr>users := [bob]\<rparr>"] b v
    by (simp add: sample_defs)
  ultimately show ?thesis using b v by simp
qed

section \<open>The user procedures and the identifier in their input\<close>

lemma user_update_frame:
  assumes "user ctx = Some u"
  shows "boards (snd (userRouter_updateUser hash ctx inp st)) = boards st
   \<and> stages (snd (userRouter_updateUser hash ctx inp st)) = stages st
   \<and> tasks (snd (userRouter_updateUser hash ctx inp st)) = tasks st
   \<and> patched u_externalID (u_externalID u) (\<lambda>_ _. True) (users st)
        (users (snd (userRouter_updateUser hash ctx inp st)))"
  using assms
  by (auto simp: userRouter_updateUser_def protectedProcedure_def user_updateUser_def
        ctx_user_externalID_def and_then_def mutation_def update_def patched_refl Let_def
        intro!: patchedI split: sum.splits option.splits)

lemma user_delete_frame:
  assumes "user ctx = Some u"
  shows "boards (snd (userRouter_deleteUser ctx inp st)) = boards st
   \<and> stages (snd (userRouter_deleteUser ctx inp st)) = stages st
   \<and> tasks (snd (userRouter_deleteUser ctx inp st)) = tasks st
   \<and> patched u_externalID (u_externalID u) (\<lambda>_ _. True) (users st)
        (users (snd (userRouter_deleteUser ctx inp st)))"
  using assms
  by (auto simp: userRouter_deleteUser_def protectedProcedure_def user_deleteUser_def
        ctx_user_externalID_def and_then_def mutation_def update_def patched_refl
        intro!: patchedI split: sum.splits option.splits)

text \<open>
  C10. \<open>user.updateUser\<close> and \<open>user.deleteUser\<close> do the same whatever \<open>externalID\<close> the
  input carries: the store and the response are equal for any two values of the field.
  The row they write is the one with the caller's identifier; the other user rows and
  the other tables stay as they are.
\<close>

theorem user_procedures_ignore_input_externalID:
  "userRouter_updateUser hash ctx (inp\<lparr>uu_externalID := a\<rparr>) st
     = userRouter_updateUser hash ctx (inp\<lparr>uu_externalID := b\<rparr>) st
   \<and> userRouter_deleteUser ctx \<lparr>externalID = a\<rparr> st = userRouter_deleteUser ctx \<lparr>externalID = b\<rparr> st
   \<and> (\<forall>u. user ctx = Some u \<longrightarrow>
         boards (snd (userRouter_updateUser hash ctx inp st)) = boards st
       \<and> stages (snd (userRouter_updateUser hash ctx inp st)) = stages st
       \<and> tasks (snd (userRouter_updateUser hash ctx inp st)) = tasks st
       \<and> patched u_externalID (u_externalID u) (\<lambda>_ _. True) (users st)
            (users (snd (userRouter_updateUser hash ctx inp st)))
       \<and> boards (snd (userRouter_deleteUser ctx del st)) = boards st
       \<and> stages (snd (userRouter_deleteUser ctx del st)) = stages st
       \<and> tasks (snd (userRouter_deleteUser ctx del st)) = tasks st
       \<and> patched u_externalID (u_externalID u) (\<lambda>_ _. True) (users st)
            (users (snd (userRouter_deleteUser ctx del st))))"
proof -
  have 1: "userRouter_updateUser hash ctx (inp\<lparr>uu_externalID := a\<rparr>) st
     = userRouter_updateUser hash ctx (inp\<lparr>uu_externalID := b\<rparr>) st"
    by (simp add: userRouter_updateUser_def protectedProcedure_def user_updateUser_def Let_def
        cong: option.case_cong)
  have 2: "userRouter_deleteUser ctx \<lparr>externalID = a\<rparr> st = userRouter_deleteUser ctx \<lparr>externalID = b\<rparr> st"
    by (simp add: userRouter_deleteUser_def protectedProcedure_def user_deleteUser_def)
  show ?thesis
    using 1 2 user_update_frame [of ctx _ hash inp st] user_delete_frame [of ctx _ del st]
    by blast
qed

theorem user_procedures_ignore_input_externalID_witness:
  "user \<lparr>user = Some bob\<rparr> = Some bob
   \<and> userRouter_updateUser sample_hash \<lparr>user = Some bob\<rparr>
        \<lparr>uu_externalID = ''u-alice'', uu_name = Some ''Robert'', uu_email = None,
         uu_password = None\<rparr> sample_store
     = (Inr (user_fields (bob\<lparr>u_name := ''Robert''\<rparr>)),
        sample_store\<lparr>users := [alice, bob\<lparr>u_name := ''Robert''\<rparr>]\<rparr>)
   \<and> userRouter_updateUser sample_hash \<lparr>user = Some bob\<rparr>
        \<lparr>uu_externalID = ''u-bob'', uu_name = Some ''Robert'', uu_email = None,
         uu_password = None\<rparr> sample_store
     = (Inr (user_fields (bob\<lparr>u_name := ''Robert''\<rparr>)),
        sample_store\<lparr>users := [alice, bob\<lparr>u_name := ''Robert''\<rparr>]\<rparr>)
   \<and> userRouter_deleteUser \<lparr>user = Some bob\<rparr> \<lparr>externalID = ''u-alice''\<rparr> sample_store
     = (Inr (), sample_store\<lparr>users := [alice, bob\<lparr>u_deleted := True\<rparr>]\<rparr>)
   \<and> patched u_externalID (u_externalID bob) (\<lambda>_ _. True) (users sample_store)
        [alice, bob\<lparr>u_name := ''Robert''\<rparr>]"
proof -
  have e: "userRouter_updateUser sample_hash \<lparr>user = Some bob\<rparr>
        \<lparr>uu_externalID = ''u-alice'', uu_name = Some ''Robert'', uu_email = None,
         uu_password = None\<rparr> sample_store
     = (Inr (user_fields (bob\<lparr>u_name := ''Robert''\<rparr>)),
        sample_store\<lparr>users := [alice, bob\<lparr>u_name := ''Robert''\<rparr>]\<rparr>)"
    by (simp add: userRouter_updateUser_def protectedProcedure_def user_updateUser_def
        ctx_user_externalID_def findFirst_def update_def and_then_simps mutation_simps
        sample_defs Let_def)
  have d: "userRouter_deleteUser \<lparr>user = Some bob\<rparr> \<lparr>externalID = ''u-bob''\<rparr> sample_store
     = (Inr (), sample_store\<lparr>users := [alice, bob\<lparr>u_deleted := True\<rparr>]\<rparr>)"
    by (simp add: userRouter_deleteUser_def protectedProcedure_def user_deleteUser_def
        ctx_user_externalID_def update_def and_then_simps mutation_simps sample_defs)
  note t = user_procedures_ignore_input_externalID [where hash = sample_hash
      and ctx = "\<lparr>user = Some bob\<rparr>"
      and inp = "\<lparr>uu_externalID = ''u-alice'', uu_name = Some ''Robert'', uu_email = None,
         uu_password = None\<rparr>" and a = "''u-alice''" and b = "''u-bob''" and st = sample_store
      and del = "\<lparr>externalID = ''u-alice''\<rparr>"]
  from t e d show ?thesis by simp
qed

section \<open>Soft deletion\<close>

text \<open>The rows that the list procedures select are rows of the caller that are not
  deleted.\<close>

lemma findMany_rows:
  assumes "findMany P tk sk xs = Inr ys"
  shows "set ys \<subseteq> {x \<in> set xs. P x}"
proof -
  let ?m = "filter P xs"
  have "set (take (nat tk) (drop (nat sk) ?m)) \<subseteq> set ?m"
    by (meson set_take_subset set_drop_subset subset_trans)
  moreover have "set (rev (take (nat (- tk)) (drop (nat sk) (rev ?m)))) \<subseteq> set ?m"
    using set_take_subset [of "nat (- tk)" "drop (nat sk) (rev ?m)"]
      set_drop_subset [of "nat sk" "rev ?m"] by auto
  ultimately show ?thesis
    using assms by (auto simp: findMany_def split: if_splits)
qed

lemma include_all_rows:
  assumes "include_all f xs = Inr ys" and "\<And>x y. f x = Inr y \<Longrightarrow> g y = x"
  shows "map g ys = xs"
  using assms
  by (induction xs arbitrary: ys) (auto simp: and_then_def split: sum.splits)

lemma listed_rows_not_deleted:
  assumes "user ctx = Some u"
  shows "boardRouter_list ctx li st = (Inr bs, st') \<Longrightarrow>
           \<forall>(b, c) \<in> set bs. b \<in> set (boards st) \<and> \<not> b_deleted b \<and> b_createdBy b = u_externalID u"
    and "stageRouter_list ctx li st = (Inr ss, st') \<Longrightarrow>
           \<forall>(s, c, b) \<in> set ss. s \<in> set (stages st) \<and> \<not> s_deleted s \<and> s_createdBy s = u_externalID u"
    and "taskRouter_list ctx li st = (Inr ts, st') \<Longrightarrow>
           \<forall>(t, c, s) \<in> set ts. t \<in> set (tasks st) \<and> \<not> t_deleted t \<and> t_createdBy t = u_externalID u"
proof -
  show "\<forall>(b, c) \<in> set bs. b \<in> set (boards st) \<and> \<not> b_deleted b \<and> b_createdBy b = u_externalID u"
    if h: "boardRouter_list ctx li st = (Inr bs, st')"
  proof -
    obtain rows where r: "findMany (\<lambda>b. \<not> b_deleted b \<and> b_createdBy b = u_externalID u)
        (limit li) (offset li) (boards st) = Inr rows" "include_all (board_createdBy st) rows = Inr bs"
      using h assms
      by (auto simp: boardRouter_list_def protectedProcedure_def board_list_def query_def
          try_catch_def ctx_user_externalID_def and_then_def split: sum.splits)
    have "map fst bs = rows"
      by (rule include_all_rows [OF r(2)]) (auto simp: board_createdBy_def and_then_def split: sum.splits)
    then show ?thesis using findMany_rows [OF r(1)] by force
  qed
  show "\<forall>(s, c, b) \<in> set ss. s \<in> set (stages st) \<and> \<not> s_deleted s \<and> s_createdBy s = u_externalID u"
    if h: "stageRouter_list ctx li st = (Inr ss, st')"
  proof -
    obtain rows where r: "findMany (\<lambda>s. \<not> s_deleted s \<and> s_createdBy s = u_externalID u)
        (limit li) (offset li) (stages st) = Inr rows" "include_all (stage_createdBy_board st) rows = Inr ss"
      using h assms
      by (auto simp: stageRouter_list_def protectedProcedure_def stage_list_def query_def
          try_catch_def ctx_user_externalID_def and_then_def split: sum.splits)
    have "map fst ss = rows"
      by (rule include_all_rows [OF r(2)])
         (auto simp: stage_createdBy_board_def and_then_def split: sum.splits)
    then show ?thesis using findMany_rows [OF r(1)] by force
  qed
  show "\<forall>(t, c, s) \<in> set ts. t \<in> set (tasks st) \<and> \<not> t_deleted t \<and> t_createdBy t = u_externalID u"
    if h: "taskRouter_list ctx li st = (Inr ts, st')"
  proof -
    obtain rows where r: "findMany (\<lambda>t. \<not> t_deleted t \<and> t_createdBy t = u_externalID u)
        (limit li) (offset li) (tasks st) = Inr rows" "include_all (task_createdBy_stage st) rows = Inr ts"
      using h assms
      by (auto simp: taskRouter_list_def protectedProcedure_def task_list_def query_def
          try_catch_def ctx_user_externalID_def and_then_def split: sum.splits)
    have "map fst ts = rows"
      by (rule include_all_rows [OF r(2)])
         (auto simp: task_createdBy_stage_def and_then_def split: sum.splits)
    then show ?thesis using findMany_rows [OF r(1)] by force
  qed
qed

text \<open>
  C3 fails on the code. A user who has deleted their account is still resolved by
  \<open>createContext\<close> (its lookup does not filter on \<open>deleted\<close>) and \<open>user.me\<close> returns their
  record; \<open>board.get\<close> returns the soft-deleted stage \<open>s-2\<close> among the stages of the board
  (the nested \<open>Stage: true\<close> has no filter).
\<close>

theorem soft_deleted_rows_returned:
  "userRouter_deleteUser \<lparr>user = Some alice\<rparr> \<lparr>externalID = ''u-alice''\<rparr> sample_store
     = (Inr (), sample_store\<lparr>users := [alice\<lparr>u_deleted := True\<rparr>, bob]\<rparr>)
   \<and> createContext sample_verify ''s3cret'' 60 (Some ''Bearer u-alice.s3cret'')
        (sample_store\<lparr>users := [alice\<lparr>u_deleted := True\<rparr>, bob]\<rparr>)
     = Inr \<lparr>user = Some (alice\<lparr>u_deleted := True\<rparr>)\<rparr>
   \<and> userRouter_me \<lparr>user = Some (alice\<lparr>u_deleted := True\<rparr>)\<rparr> ()
        (sample_store\<lparr>users := [alice\<lparr>u_deleted := True\<rparr>, bob]\<rparr>)
     = (Inr (user_fields alice), sample_store\<lparr>users := [alice\<lparr>u_deleted := True\<rparr>, bob]\<rparr>)
   \<and> boardRouter_get \<lparr>user = Some alice\<rparr> \<lparr>externalID = ''b-1''\<rparr> sample_store
     = (Inr (sprint1, alice, [todo, archived]), sample_store)
   \<and> s_deleted archived"
  by (simp add: userRouter_deleteUser_def userRouter_me_def boardRouter_get_def
      protectedProcedure_def user_deleteUser_def user_me_def board_get_def user_fields_def
      createContext_def bearer_token_def sample_verify_def findUnique_user_def findFirst_def
      ctx_user_externalID_def update_def the_user_def findFirstOrThrow_def
      and_then_simps mutation_simps query_simps sample_defs)

section \<open>Creation\<close>

text \<open>
  C5 fails on the code. \<open>board.create\<close> refuses the first board of a title
  (\<open>findFirstOrThrow\<close> throws when there is no board with that title) and accepts a
  second one; \<open>stage.create\<close> refuses a stage when the caller has no board of the same
  title as the stage; \<open>task.create\<close> refuses a task for an existing, non-deleted stage
  when the caller has no stage titled like the task, and accepts one for the soft-deleted
  stage \<open>s-2\<close> when there is such a stage.
\<close>

theorem create_checks_inverted:
  "boardRouter_create ''b-1'' \<lparr>user = Some alice\<rparr>
      \<lparr>bc_title = ''Sprint 1'', bc_description = None\<rparr> fresh_store
     = (Inl (TRPCError INTERNAL_SERVER_ERROR), fresh_store)
   \<and> boardRouter_create ''b-3'' \<lparr>user = Some alice\<rparr>
      \<lparr>bc_title = ''Sprint 1'', bc_description = None\<rparr> sample_store
     = (Inr (sprint1\<lparr>b_externalID := ''b-3''\<rparr>, alice),
        sample_store\<lparr>boards := [sprint1, backlog, sprint1\<lparr>b_externalID := ''b-3''\<rparr>]\<rparr>)
   \<and> stageRouter_create ''s-3'' \<lparr>user = Some alice\<rparr>
      \<lparr>sc_title = ''Doing'', sc_description = ''now'', sc_boardExternalID = ''b-1''\<rparr> sample_store
     = (Inl (TRPCError INTERNAL_SERVER_ERROR), sample_store)
   \<and> taskRouter_create ''t-2'' 5 \<lparr>user = Some alice\<rparr>
      \<lparr>tc_title = ''Read'', tc_description = None, tc_dueDate = None, tc_priority = 1,
       tc_stageExternalID = ''s-1''\<rparr> sample_store
     = (Inl (TRPCError INTERNAL_SERVER_ERROR), sample_store)
   \<and> taskRouter_create ''t-2'' 5 \<lparr>user = Some alice\<rparr>
      \<lparr>tc_title = ''Todo'', tc_description = None, tc_dueDate = None, tc_priority = 1,
       tc_stageExternalID = ''s-2''\<rparr> sample_store
     = (Inr (\<lparr>t_externalID = ''t-2'', t_title = ''Todo'', t_description = None, t_dueDate = 5,
              t_priority = 1, t_createdBy = ''u-alice'', t_stage = ''s-2'', t_deleted = False\<rparr>,
             alice, archived, sprint1),
        sample_store\<lparr>tasks := [write_spec,
           \<lparr>t_externalID = ''t-2'', t_title = ''Todo'', t_description = None, t_dueDate = 5,
            t_priority = 1, t_createdBy = ''u-alice'', t_stage = ''s-2'', t_deleted = False\<rparr>]\<rparr>)
   \<and> s_deleted archived"
  by (simp add: boardRouter_create_def stageRouter_create_def taskRouter_create_def
      protectedProcedure_def board_create_def stage_create_def task_create_def create_board_def
      create_task_def task_createdBy_stage_board_def the_stage_def the_board_def or_date_def
      ctx_user_externalID_def the_user_def findFirstOrThrow_def or_string_def
      and_then_simps mutation_simps sample_defs Let_def)

text \<open>
  C6 fails on the code. Bob, who has a board titled \<open>Review\<close>, creates a stage of that
  title under Alice's board \<open>b-1\<close>: the parent is connected by identifier with no look at
  its owner, and the owner chain, which held before, is broken. \<open>task.update\<close> then moves
  Alice's task under Bob's stage.
\<close>

theorem owner_chain_broken:
  "owner_chain sample_store
   \<and> stageRouter_create ''s-3'' \<lparr>user = Some bob\<rparr>
      \<lparr>sc_title = ''Review'', sc_description = ''mine'', sc_boardExternalID = ''b-1''\<rparr> sample_store
     = (Inr (\<lparr>s_externalID = ''s-3'', s_title = ''Review'', s_description = ''mine'',
              s_createdBy = ''u-bob'', s_board = ''b-1'', s_deleted = False\<rparr>, bob, sprint1),
        sample_store\<lparr>stages := [todo, archived,
           \<lparr>s_externalID = ''s-3'', s_title = ''Review'', s_description = ''mine'',
            s_createdBy = ''u-bob'', s_board = ''b-1'', s_deleted = False\<rparr>]\<rparr>)
   \<and> \<not> owner_chain (snd (stageRouter_create ''s-3'' \<lparr>user = Some bob\<rparr>
      \<lparr>sc_title = ''Review'', sc_description = ''mine'', sc_boardExternalID = ''b-1''\<rparr> sample_store))
   \<and> taskRouter_update \<lparr>user = Some alice\<rparr>
      \<lparr>tu_externalID = ''t-1'', tu_title = None, tu_description = None, tu_dueDate = None,
       tu_priority = None, tu_stageExternalID = Some ''s-3''\<rparr>
      (sample_store\<lparr>stages := [todo, archived,
           \<lparr>s_externalID = ''s-3'', s_title = ''Review'', s_description = ''mine'',
            s_createdBy = ''u-bob'', s_board = ''b-1'', s_deleted = False\<rparr>]\<rparr>)
     = (Inr (write_spec, alice, todo, sprint1),
        sample_store\<lparr>stages := [todo, archived,
           \<lparr>s_externalID = ''s-3'', s_title = ''Review'', s_description = ''mine'',
            s_createdBy = ''u-bob'', s_board = ''b-1'', s_deleted = False\<rparr>],
          tasks := [write_spec\<lparr>t_stage := ''s-3''\<rparr>]\<rparr>)"
  by (simp add: owner_chain_def stageRouter_create_def protectedProcedure_def stage_create_def
      create_stage_def ctx_user_externalID_def the_user_def the_board_def findFirstOrThrow_def
      task_update_defs and_then_simps mutation_simps sample_defs Let_def)

end
